theory Spec2Isabelle
  imports Complex_Main "HOL-Library.Char_ord" "HOL-Library.List_Lexorder"
    "HOL-Library.Product_Lexorder"
begin

section \<open>Data model\<close>

text \<open>
  The entities of the expense tracker as records. Primary keys are generated uuids in the
  source; they are opaque, so they are modelled as natural numbers and a new key is one
  more than the largest key of its table. Owner ids are keys of the users table.
  Money is rational: the arithmetic the services do on JavaScript numbers is modelled
  exactly, and a write to a \<open>decimal(15,2)\<close> column of the ledger goes through
  \<open>decimalColumn\<close> below. The timestamp columns \<open>createdAt\<close> and \<open>updatedAt\<close> are left
  out: no service function reads them.
  Field names carry the entity as a prefix (\<open>pm_\<close>, \<open>c_\<close>, \<open>e_\<close>), since the entities
  share the names \<open>id\<close>, \<open>name\<close> and \<open>userId\<close>.
\<close>

type_synonym uuid = nat

text \<open>What a request can throw: the three HTTP exceptions of the services, the error the
  storage service rethrows from a failed upload or deletion, \<open>TypeORMError\<close> from the query
  builder, and \<open>QueryFailedError\<close> from a statement the database rejects.\<close>

datatype error = NotFound | Conflict | BadRequest | UploadFailure | DeleteFailure
  | TypeORMError | QueryFailedError

datatype PaymentMethodType = CASH | DEBIT_CARD | CREDIT_CARD | TRANSFER | DIGITAL_WALLET

record PaymentMethod =
  pm_id :: uuid
  pm_name :: string
  pm_type :: PaymentMethodType
  pm_lastFourDigits :: "string option"
  pm_bankName :: "string option"
  pm_icon :: "string option"
  pm_color :: "string option"
  pm_balance :: rat
  pm_creditLimit :: "rat option"
  pm_expirationDate :: "string option"
  pm_isActive :: bool
  pm_isDefault :: bool
  pm_userId :: uuid

record CreatePaymentMethodDto =
  cpm_name :: string
  cpm_type :: PaymentMethodType
  cpm_lastFourDigits :: "string option"
  cpm_bankName :: "string option"
  cpm_icon :: "string option"
  cpm_color :: "string option"
  cpm_balance :: "rat option"
  cpm_creditLimit :: "rat option"
  cpm_expirationDate :: "string option"
  cpm_isDefault :: "bool option"

text \<open>\<open>UpdatePaymentMethodDto\<close> is \<open>PartialType(CreatePaymentMethodDto)\<close> plus \<open>isActive\<close>:
  every field may be absent (\<open>None\<close>).\<close>

record UpdatePaymentMethodDto =
  upm_name :: "string option"
  upm_type :: "PaymentMethodType option"
  upm_lastFourDigits :: "string option"
  upm_bankName :: "string option"
  upm_icon :: "string option"
  upm_color :: "string option"
  upm_balance :: "rat option"
  upm_creditLimit :: "rat option"
  upm_expirationDate :: "string option"
  upm_isDefault :: "bool option"
  upm_isActive :: "bool option"

record Category =
  c_id :: uuid
  c_name :: string
  c_description :: "string option"
  c_icon :: "string option"
  c_color :: string
  c_isSystem :: bool
  c_orderIndex :: int
  c_userId :: "uuid option"

record CreateCategoryDto =
  cc_name :: string
  cc_description :: "string option"
  cc_icon :: "string option"
  cc_color :: string
  cc_orderIndex :: "int option"

record UpdateCategoryDto =
  uc_name :: "string option"
  uc_description :: "string option"
  uc_icon :: "string option"
  uc_color :: "string option"
  uc_orderIndex :: "int option"

datatype ExpenseSource = MANUAL | VOICE | OCR

text \<open>A calendar date (the \<open>date\<close> column has no time of day).\<close>

record CalendarDate =
  year :: int
  month :: nat
  day :: nat

record Expense =
  e_id :: uuid
  e_amount :: rat
  e_description :: string
  e_notes :: "string option"
  e_date :: CalendarDate
  e_source :: ExpenseSource
  e_receiptUrl :: "string option"
  e_receiptS3Key :: "string option"
  e_ocrData :: "string option"
  e_voiceTranscription :: "string option"
  e_voiceAudioUrl :: "string option"
  e_voiceAudioS3Key :: "string option"
  e_userId :: uuid
  e_categoryId :: uuid
  e_paymentMethodId :: uuid

record CreateExpenseDto =
  ce_amount :: rat
  ce_description :: string
  ce_notes :: "string option"
  ce_date :: CalendarDate
  ce_categoryId :: uuid
  ce_paymentMethodId :: uuid

text \<open>\<open>UpdateExpenseDto\<close> is \<open>PartialType(CreateExpenseDto)\<close>. The global validation pipe
  runs with \<open>whitelist\<close> and \<open>forbidNonWhitelisted\<close>, so a request body carries these six
  fields and no other.\<close>

record UpdateExpenseDto =
  ue_amount :: "rat option"
  ue_description :: "string option"
  ue_notes :: "string option"
  ue_date :: "CalendarDate option"
  ue_categoryId :: "uuid option"
  ue_paymentMethodId :: "uuid option"

text \<open>A JavaScript number as far as the summary needs it: a finite value, or what a
  division by zero gives.\<close>

datatype jsnumber = Finite rat | NaN | PosInfinity | NegInfinity

record CategoryBreakdown =
  cb_categoryId :: "uuid option"
  cb_categoryName :: "string option"
  cb_categoryColor :: "string option"
  cb_count :: nat
  cb_total :: rat
  cb_percentage :: jsnumber

record PaymentMethodBreakdown =
  pb_paymentMethodId :: "uuid option"
  pb_paymentMethodName :: "string option"
  pb_count :: nat
  pb_total :: rat
  pb_percentage :: jsnumber

record ExpenseSummaryDto =
  totalExpenses :: nat
  totalAmount :: rat
  averageExpense :: rat
  currentMonthTotal :: rat
  lastMonthTotal :: rat
  percentageChange :: rat
  byCategory :: "CategoryBreakdown list"
  byPaymentMethod :: "PaymentMethodBreakdown list"

text \<open>The keys under which the payment-method service touches the cache:
  \<open>payment-methods:<userId>:<includeInactive>\<close>, and \<open>payment-methods:<userId>\<close>, which
  \<open>create\<close> deletes.\<close>

datatype pmCacheKey = PmList uuid bool | PmPlain uuid

text \<open>The state the services share: the three tables and the cache, one map per family
  of keys. Expiry of cache entries is not modelled.\<close>

record state =
  categories :: "Category list"
  paymentMethods :: "PaymentMethod list"
  expenses :: "Expense list"
  summaryCache :: "uuid \<Rightarrow> ExpenseSummaryDto option"
  categoriesCache :: "uuid \<Rightarrow> Category list option"
  paymentMethodsCache :: "pmCacheKey \<Rightarrow> PaymentMethod list option"

definition freshId :: "uuid list \<Rightarrow> uuid" where
  "freshId ids = Suc (fold max ids 0)"

text \<open>A write to a \<open>decimal(15,2)\<close> column (PostgreSQL \<open>numeric(15,2)\<close>): the value is
  rounded to two decimal places, ties away from zero, and the statement is rejected with
  \<open>numeric field overflow\<close> when the rounded value needs more than thirteen digits before
  the point.\<close>

definition roundCents :: "rat \<Rightarrow> rat" where
  "roundCents x = (if 0 \<le> x then of_int \<lfloor>x * 100 + 1 / 2\<rfloor> / 100
                   else - (of_int \<lfloor>- x * 100 + 1 / 2\<rfloor> / 100))"

definition decimalColumn :: "rat \<Rightarrow> error + rat" where
  "decimalColumn x =
     (if \<bar>roundCents x\<bar> < 10 ^ 13 then Inr (roundCents x) else Inl QueryFailedError)"

section \<open>PaymentMethodsService\<close>

definition pm_findOne :: "state \<Rightarrow> uuid \<Rightarrow> uuid \<Rightarrow> error + PaymentMethod" where
  "pm_findOne s userId ident =
     (case find (\<lambda>p. pm_id p = ident \<and> pm_userId p = userId) (paymentMethods s) of
        None \<Rightarrow> Inl NotFound
      | Some p \<Rightarrow> Inr p)"

text \<open>\<open>repository.update({userId, isDefault: true}, {isDefault: false})\<close>\<close>

definition clearDefaults :: "uuid \<Rightarrow> PaymentMethod list \<Rightarrow> PaymentMethod list" where
  "clearDefaults userId pms =
     map (\<lambda>p. if pm_userId p = userId \<and> pm_isDefault p then p\<lparr>pm_isDefault := False\<rparr> else p) pms"

text \<open>\<open>repository.save\<close> of a payment method that \<open>findOne\<close> loaded (it loads no
  relation): the row with its primary key is overwritten by the entity's columns as the
  service has set them.\<close>

definition pm_save :: "PaymentMethod \<Rightarrow> PaymentMethod list \<Rightarrow> PaymentMethod list" where
  "pm_save x pms = map (\<lambda>p. if pm_id p = pm_id x then x else p) pms"

text \<open>The entity \<open>create\<close> builds from its DTO, with the column defaults (balance 0,
  active, not default). The balance and the credit limit of a payment-method DTO are taken
  to be values of their columns, two decimals within range, which \<open>create\<close> and \<open>update\<close>
  store as they are.\<close>

definition pm_fromDto :: "uuid \<Rightarrow> uuid \<Rightarrow> CreatePaymentMethodDto \<Rightarrow> PaymentMethod" where
  "pm_fromDto ident userId dto =
     \<lparr> pm_id = ident, pm_name = cpm_name dto, pm_type = cpm_type dto,
       pm_lastFourDigits = cpm_lastFourDigits dto, pm_bankName = cpm_bankName dto,
       pm_icon = cpm_icon dto, pm_color = cpm_color dto,
       pm_balance = (case cpm_balance dto of None \<Rightarrow> 0 | Some b \<Rightarrow> b),
       pm_creditLimit = cpm_creditLimit dto, pm_expirationDate = cpm_expirationDate dto,
       pm_isActive = True,
       pm_isDefault = (case cpm_isDefault dto of None \<Rightarrow> False | Some d \<Rightarrow> d),
       pm_userId = userId \<rparr>"

definition PaymentMethodsService_create ::
  "state \<Rightarrow> uuid \<Rightarrow> CreatePaymentMethodDto \<Rightarrow> state \<times> (error + PaymentMethod)" where
  "PaymentMethodsService_create s userId dto =
     (case find (\<lambda>p. pm_name p = cpm_name dto \<and> pm_userId p = userId) (paymentMethods s) of
        Some existing \<Rightarrow> (s, Inl Conflict)
      | None \<Rightarrow>
          (let pms1 = (if cpm_isDefault dto = Some True
                       then clearDefaults userId (paymentMethods s) else paymentMethods s);
               saved = pm_fromDto (freshId (map pm_id pms1)) userId dto
           in (s\<lparr>paymentMethods := pms1 @ [saved],
                 paymentMethodsCache := (paymentMethodsCache s)(PmPlain userId := None)\<rparr>,
               Inr saved)))"

text \<open>\<open>Object.assign(paymentMethod, updatePaymentMethodDto)\<close>: the fields the DTO carries
  overwrite the entity's.\<close>

definition pm_assign :: "PaymentMethod \<Rightarrow> UpdatePaymentMethodDto \<Rightarrow> PaymentMethod" where
  "pm_assign p dto =
     p\<lparr> pm_name := (case upm_name dto of None \<Rightarrow> pm_name p | Some v \<Rightarrow> v),
        pm_type := (case upm_type dto of None \<Rightarrow> pm_type p | Some v \<Rightarrow> v),
        pm_lastFourDigits := (case upm_lastFourDigits dto of None \<Rightarrow> pm_lastFourDigits p | Some v \<Rightarrow> Some v),
        pm_bankName := (case upm_bankName dto of None \<Rightarrow> pm_bankName p | Some v \<Rightarrow> Some v),
        pm_icon := (case upm_icon dto of None \<Rightarrow> pm_icon p | Some v \<Rightarrow> Some v),
        pm_color := (case upm_color dto of None \<Rightarrow> pm_color p | Some v \<Rightarrow> Some v),
        pm_balance := (case upm_balance dto of None \<Rightarrow> pm_balance p | Some v \<Rightarrow> v),
        pm_creditLimit := (case upm_creditLimit dto of None \<Rightarrow> pm_creditLimit p | Some v \<Rightarrow> Some v),
        pm_expirationDate := (case upm_expirationDate dto of None \<Rightarrow> pm_expirationDate p | Some v \<Rightarrow> Some v),
        pm_isActive := (case upm_isActive dto of None \<Rightarrow> pm_isActive p | Some v \<Rightarrow> v),
        pm_isDefault := (case upm_isDefault dto of None \<Rightarrow> pm_isDefault p | Some v \<Rightarrow> v) \<rparr>"

definition pm_evictLists :: "uuid \<Rightarrow> (pmCacheKey \<Rightarrow> PaymentMethod list option)
    \<Rightarrow> (pmCacheKey \<Rightarrow> PaymentMethod list option)" where
  "pm_evictLists userId c = c(PmList userId True := None, PmList userId False := None)"

text \<open>The duplicate-name check runs when the DTO carries a name (a non-empty string is
  truthy) that differs from the current one.\<close>

definition PaymentMethodsService_update ::
  "state \<Rightarrow> uuid \<Rightarrow> uuid \<Rightarrow> UpdatePaymentMethodDto \<Rightarrow> state \<times> (error + PaymentMethod)" where
  "PaymentMethodsService_update s userId ident dto =
     (case pm_findOne s userId ident of
        Inl e \<Rightarrow> (s, Inl e)
      | Inr paymentMethod \<Rightarrow>
          (if (case upm_name dto of None \<Rightarrow> False
               | Some n \<Rightarrow> n \<noteq> [] \<and> n \<noteq> pm_name paymentMethod \<and>
                   find (\<lambda>p. pm_name p = n \<and> pm_userId p = userId) (paymentMethods s) \<noteq> None)
           then (s, Inl Conflict)
           else
             (let pms1 = (if upm_isDefault dto = Some True
                          then clearDefaults userId (paymentMethods s) else paymentMethods s);
                  updated = pm_assign paymentMethod dto
              in (s\<lparr>paymentMethods := pm_save updated pms1,
                    paymentMethodsCache := pm_evictLists userId (paymentMethodsCache s)\<rparr>,
                  Inr updated))))"

definition PaymentMethodsService_getDefault :: "state \<Rightarrow> uuid \<Rightarrow> PaymentMethod option" where
  "PaymentMethodsService_getDefault s userId =
     find (\<lambda>p. pm_userId p = userId \<and> pm_isDefault p \<and> pm_isActive p) (paymentMethods s)"

definition PaymentMethodsService_setDefault ::
  "state \<Rightarrow> uuid \<Rightarrow> uuid \<Rightarrow> state \<times> (error + PaymentMethod)" where
  "PaymentMethodsService_setDefault s userId ident =
     (case pm_findOne s userId ident of
        Inl e \<Rightarrow> (s, Inl e)
      | Inr paymentMethod \<Rightarrow>
          (let pms1 = clearDefaults userId (paymentMethods s);
               updated = paymentMethod\<lparr>pm_isDefault := True\<rparr>
           in (s\<lparr>paymentMethods := pm_save updated pms1,
                 paymentMethodsCache := pm_evictLists userId (paymentMethodsCache s)\<rparr>,
               Inr updated)))"

datatype BalanceOperation = Add | Subtract

text \<open>\<open>updateBalance\<close> adds to or subtracts from \<open>Number(paymentMethod.balance)\<close> and saves
  the entity. The save writes the new balance to its \<open>decimal(15,2)\<close> column: the row holds
  the rounded balance, and a balance out of the column's range makes the save throw, the
  row being left as it was. The entity returned is the one in memory.\<close>

definition PaymentMethodsService_updateBalance ::
  "state \<Rightarrow> uuid \<Rightarrow> uuid \<Rightarrow> rat \<Rightarrow> BalanceOperation \<Rightarrow> state \<times> (error + PaymentMethod)" where
  "PaymentMethodsService_updateBalance s userId ident amount operation =
     (case pm_findOne s userId ident of
        Inl e \<Rightarrow> (s, Inl e)
      | Inr paymentMethod \<Rightarrow>
          (let updated = (if operation = Add
                          then paymentMethod\<lparr>pm_balance := pm_balance paymentMethod + amount\<rparr>
                          else paymentMethod\<lparr>pm_balance := pm_balance paymentMethod - amount\<rparr>)
           in case decimalColumn (pm_balance updated) of
                Inl e \<Rightarrow> (s, Inl e)
              | Inr balance \<Rightarrow>
                  (s\<lparr>paymentMethods := pm_save (updated\<lparr>pm_balance := balance\<rparr>) (paymentMethods s)\<rparr>,
                   Inr updated)))"

text \<open>\<open>findAll\<close>: read through the cache; active methods only unless \<open>includeInactive\<close>;
  ordered by \<open>isDefault\<close> descending, then \<open>name\<close> ascending.\<close>

definition PaymentMethodsService_findAll ::
  "state \<Rightarrow> uuid \<Rightarrow> bool \<Rightarrow> state \<times> PaymentMethod list" where
  "PaymentMethodsService_findAll s userId includeInactive =
     (case paymentMethodsCache s (PmList userId includeInactive) of
        Some cached \<Rightarrow> (s, cached)
      | None \<Rightarrow>
          (let found = sort_key (\<lambda>p. (\<not> pm_isDefault p, pm_name p))
                         (filter (\<lambda>p. pm_userId p = userId \<and> (includeInactive \<or> pm_isActive p))
                            (paymentMethods s))
           in (s\<lparr>paymentMethodsCache :=
                    (paymentMethodsCache s)(PmList userId includeInactive := Some found)\<rparr>,
               found)))"

subsection \<open>The count query of the deletion guards\<close>

text \<open>
  The deletion guard of the payment methods runs
  \<^verbatim>\<open>createQueryBuilder('pm').leftJoin('pm.expenses', 'expense').where('pm.id = :id').getCount()\<close>
  over the relation \<open>expenses\<close> that the entity \<open>PaymentMethod\<close> declares.
  A left join keeps a row of the left table that has no match, paired with nulls
  (\<open>None\<close>); \<open>getCount\<close> counts the distinct root entities among the selected rows.
\<close>

definition leftJoin :: "('a \<Rightarrow> 'b \<Rightarrow> bool) \<Rightarrow> 'a list \<Rightarrow> 'b list \<Rightarrow> ('a \<times> 'b option) list" where
  "leftJoin on xs ys =
     concat (map (\<lambda>x. case filter (on x) ys of
                         [] \<Rightarrow> [(x, None)]
                       | m # ms \<Rightarrow> map (\<lambda>y. (x, Some y)) (m # ms)) xs)"

definition getCount :: "('a \<Rightarrow> uuid) \<Rightarrow> ('a \<times> 'b option) list \<Rightarrow> nat" where
  "getCount key rows = length (remdups (map (\<lambda>r. key (fst r)) rows))"

definition pm_hasExpenses :: "state \<Rightarrow> uuid \<Rightarrow> nat" where
  "pm_hasExpenses s ident =
     getCount pm_id
       (filter (\<lambda>r. pm_id (fst r) = ident)
          (leftJoin (\<lambda>p e. e_paymentMethodId e = pm_id p) (paymentMethods s) (expenses s)))"

definition PaymentMethodsService_remove :: "state \<Rightarrow> uuid \<Rightarrow> uuid \<Rightarrow> state \<times> (error + unit)" where
  "PaymentMethodsService_remove s userId ident =
     (case pm_findOne s userId ident of
        Inl e \<Rightarrow> (s, Inl e)
      | Inr paymentMethod \<Rightarrow>
          (if pm_hasExpenses s ident > 0 then (s, Inl BadRequest)
           else (s\<lparr>paymentMethods :=
                      filter (\<lambda>p. pm_id p \<noteq> pm_id paymentMethod) (paymentMethods s),
                    paymentMethodsCache := pm_evictLists userId (paymentMethodsCache s)\<rparr>,
                 Inr ())))"

section \<open>CategoriesService\<close>

text \<open>\<open>findOne\<close> resolves a category the caller owns or a system category:
  \<open>where: [{id, userId}, {id, isSystem: true}]\<close>.\<close>

definition cat_findOne :: "state \<Rightarrow> uuid \<Rightarrow> uuid \<Rightarrow> error + Category" where
  "cat_findOne s userId ident =
     (case find (\<lambda>c. (c_id c = ident \<and> c_userId c = Some userId) \<or> (c_id c = ident \<and> c_isSystem c))
             (categories s) of
        None \<Rightarrow> Inl NotFound
      | Some c \<Rightarrow> Inr c)"

definition cat_save :: "Category \<Rightarrow> Category list \<Rightarrow> Category list" where
  "cat_save x cs = map (\<lambda>c. if c_id c = c_id x then x else c) cs"

definition cat_evict :: "state \<Rightarrow> uuid \<Rightarrow> state" where
  "cat_evict s userId = s\<lparr>categoriesCache := (categoriesCache s)(userId := None)\<rparr>"

definition CategoriesService_create ::
  "state \<Rightarrow> uuid \<Rightarrow> CreateCategoryDto \<Rightarrow> state \<times> (error + Category)" where
  "CategoriesService_create s userId dto =
     (case find (\<lambda>c. c_name c = cc_name dto \<and> c_userId c = Some userId) (categories s) of
        Some existingCategory \<Rightarrow> (s, Inl Conflict)
      | None \<Rightarrow>
          (let savedCategory =
                 \<lparr> c_id = freshId (map c_id (categories s)), c_name = cc_name dto,
                   c_description = cc_description dto, c_icon = cc_icon dto,
                   c_color = cc_color dto, c_isSystem = False,
                   c_orderIndex = (case cc_orderIndex dto of None \<Rightarrow> 0 | Some i \<Rightarrow> i),
                   c_userId = Some userId \<rparr>
           in (cat_evict (s\<lparr>categories := categories s @ [savedCategory]\<rparr>) userId,
               Inr savedCategory)))"

text \<open>\<open>findAll\<close>: read through the cache; the caller's categories and the system ones,
  ordered by \<open>orderIndex\<close>, then \<open>name\<close>.\<close>

definition CategoriesService_findAll :: "state \<Rightarrow> uuid \<Rightarrow> state \<times> Category list" where
  "CategoriesService_findAll s userId =
     (case categoriesCache s userId of
        Some cached \<Rightarrow> (s, cached)
      | None \<Rightarrow>
          (let found = sort_key (\<lambda>c. (c_orderIndex c, c_name c))
                         (filter (\<lambda>c. c_userId c = Some userId \<or> c_isSystem c) (categories s))
           in (s\<lparr>categoriesCache := (categoriesCache s)(userId := Some found)\<rparr>, found)))"

definition cat_assign :: "Category \<Rightarrow> UpdateCategoryDto \<Rightarrow> Category" where
  "cat_assign c dto =
     c\<lparr> c_name := (case uc_name dto of None \<Rightarrow> c_name c | Some v \<Rightarrow> v),
        c_description := (case uc_description dto of None \<Rightarrow> c_description c | Some v \<Rightarrow> Some v),
        c_icon := (case uc_icon dto of None \<Rightarrow> c_icon c | Some v \<Rightarrow> Some v),
        c_color := (case uc_color dto of None \<Rightarrow> c_color c | Some v \<Rightarrow> v),
        c_orderIndex := (case uc_orderIndex dto of None \<Rightarrow> c_orderIndex c | Some v \<Rightarrow> v) \<rparr>"

definition CategoriesService_update ::
  "state \<Rightarrow> uuid \<Rightarrow> uuid \<Rightarrow> UpdateCategoryDto \<Rightarrow> state \<times> (error + Category)" where
  "CategoriesService_update s userId ident dto =
     (case cat_findOne s userId ident of
        Inl e \<Rightarrow> (s, Inl e)
      | Inr category \<Rightarrow>
          (if c_isSystem category then (s, Inl BadRequest)
           else if c_userId category \<noteq> Some userId then (s, Inl BadRequest)
           else if (case uc_name dto of None \<Rightarrow> False
                    | Some n \<Rightarrow> n \<noteq> [] \<and> n \<noteq> c_name category \<and>
                        find (\<lambda>c. c_name c = n \<and> c_userId c = Some userId) (categories s) \<noteq> None)
           then (s, Inl Conflict)
           else
             (let updated = cat_assign category dto
              in (cat_evict (s\<lparr>categories := cat_save updated (categories s)\<rparr>) userId,
                  Inr updated))))"

text \<open>The count query of \<open>remove\<close>,
  \<^verbatim>\<open>createQueryBuilder('category').leftJoin('category.expenses', 'expense')\<close>, joins over a
  relation \<open>expenses\<close> of \<open>Category\<close>. The entity declares none: its \<open>@OneToMany\<close> to the
  expenses is commented out, with the import of \<open>Expense\<close>. The query builder finds no
  relation of that name and throws \<open>TypeORMError\<close> for every argument, so the query returns
  no count.\<close>

definition cat_hasExpenses :: "state \<Rightarrow> uuid \<Rightarrow> error + nat" where
  "cat_hasExpenses s ident = Inl TypeORMError"

definition CategoriesService_remove :: "state \<Rightarrow> uuid \<Rightarrow> uuid \<Rightarrow> state \<times> (error + unit)" where
  "CategoriesService_remove s userId ident =
     (case cat_findOne s userId ident of
        Inl e \<Rightarrow> (s, Inl e)
      | Inr category \<Rightarrow>
          (if c_isSystem category then (s, Inl BadRequest)
           else if c_userId category \<noteq> Some userId then (s, Inl BadRequest)
           else (case cat_hasExpenses s ident of
                   Inl e \<Rightarrow> (s, Inl e)
                 | Inr hasExpenses \<Rightarrow>
                     (if hasExpenses > 0 then (s, Inl BadRequest)
                      else (cat_evict (s\<lparr>categories :=
                                            filter (\<lambda>c. c_id c \<noteq> c_id category) (categories s)\<rparr>)
                              userId,
                            Inr ())))))"

text \<open>\<open>reorder\<close>: the loop over \<open>categoryIds\<close>, with the index \<open>i\<close> as an argument. A
  \<open>findOne\<close> that throws ends the loop with the rows saved so far, and the cache entry is
  not evicted.\<close>

fun reorder_loop :: "state \<Rightarrow> uuid \<Rightarrow> nat \<Rightarrow> uuid list \<Rightarrow> state \<times> (error + unit)" where
  "reorder_loop s userId i [] = (s, Inr ())"
| "reorder_loop s userId i (x # xs) =
     (case cat_findOne s userId x of
        Inl e \<Rightarrow> (s, Inl e)
      | Inr category \<Rightarrow>
          (if c_userId category = Some userId
           then reorder_loop
                  (s\<lparr>categories := cat_save (category\<lparr>c_orderIndex := int i\<rparr>) (categories s)\<rparr>)
                  userId (Suc i) xs
           else reorder_loop s userId (Suc i) xs))"

definition CategoriesService_reorder :: "state \<Rightarrow> uuid \<Rightarrow> uuid list \<Rightarrow> state \<times> (error + unit)" where
  "CategoriesService_reorder s userId categoryIds =
     (case reorder_loop s userId 0 categoryIds of
        (s1, Inl e) \<Rightarrow> (s1, Inl e)
      | (s1, Inr u) \<Rightarrow> (cat_evict s1 userId, Inr ()))"

text \<open>\<open>createDefaultCategories\<close>: the catalogue of system categories (name, icon, colour,
  order index), each inserted unless a system category of that name exists.\<close>

definition defaultCategories :: "(string \<times> string \<times> string \<times> int) list" where
  "defaultCategories =
     [(''Comida'', ''restaurant'', ''#FF6B6B'', 0),
      (''Transporte'', ''directions_car'', ''#4ECDC4'', 1),
      (''Entretenimiento'', ''movie'', ''#FFA07A'', 2),
      (''Compras'', ''shopping_cart'', ''#9B59B6'', 3),
      (''Salud'', ''local_hospital'', ''#2ECC71'', 4),
      (''Educaci'' @ [char_of (195::nat), char_of (179::nat)] @ ''n'', ''school'', ''#3498DB'', 5),
      (''Servicios'', ''build'', ''#F39C12'', 6),
      (''Otros'', ''more_horiz'', ''#95A5A6'', 7)]"

fun seed_loop :: "state \<Rightarrow> (string \<times> string \<times> string \<times> int) list \<Rightarrow> state" where
  "seed_loop s [] = s"
| "seed_loop s ((name, icon, color, orderIndex) # rest) =
     (case find (\<lambda>c. c_name c = name \<and> c_isSystem c) (categories s) of
        Some exists \<Rightarrow> seed_loop s rest
      | None \<Rightarrow>
          seed_loop
            (s\<lparr>categories := categories s @
                  [\<lparr> c_id = freshId (map c_id (categories s)), c_name = name,
                     c_description = None, c_icon = Some icon, c_color = color,
                     c_isSystem = True, c_orderIndex = orderIndex, c_userId = None \<rparr>]\<rparr>)
            rest)"

definition CategoriesService_createDefaultCategories :: "state \<Rightarrow> state" where
  "CategoriesService_createDefaultCategories s = seed_loop s defaultCategories"

section \<open>ExpensesService\<close>

definition exp_findOne :: "state \<Rightarrow> uuid \<Rightarrow> uuid \<Rightarrow> error + Expense" where
  "exp_findOne s userId ident =
     (case find (\<lambda>e. e_id e = ident \<and> e_userId e = userId) (expenses s) of
        None \<Rightarrow> Inl NotFound
      | Some e \<Rightarrow> Inr e)"

text \<open>The expense that \<open>findOne\<close> returns carries, beside its columns, the \<open>category\<close> and
  \<open>paymentMethod\<close> objects of its two relations, which the record leaves out: they are the
  rows its foreign keys point to. \<open>repository.save\<close> of such an entity writes the scalar
  columns from the entity's properties, the amount through its \<open>decimal(15,2)\<close> column, and
  the two join columns from the loaded relation objects. \<open>Object.assign\<close> with a DTO sets
  the properties \<open>categoryId\<close> and \<open>paymentMethodId\<close> and leaves the relation objects
  alone, so the row that \<open>save\<close> writes keeps the foreign keys of the row that was loaded.
  \<open>exp_row loaded entity amount\<close> is the row written for \<open>entity\<close>, \<open>amount\<close> being the
  value the amount column takes.\<close>

definition exp_row :: "Expense \<Rightarrow> Expense \<Rightarrow> rat \<Rightarrow> Expense" where
  "exp_row loaded entity amount =
     entity\<lparr> e_amount := amount, e_categoryId := e_categoryId loaded,
             e_paymentMethodId := e_paymentMethodId loaded \<rparr>"

definition exp_save :: "Expense \<Rightarrow> Expense list \<Rightarrow> Expense list" where
  "exp_save row es = map (\<lambda>e. if e_id e = e_id row then row else e) es"

definition invalidateCache :: "state \<Rightarrow> uuid \<Rightarrow> state" where
  "invalidateCache s userId = s\<lparr>summaryCache := (summaryCache s)(userId := None)\<rparr>"

text \<open>The three creation paths end alike: \<open>expenseRepository.save(expense)\<close> inserts the
  row under a new key, \<open>updateBalance(..., 'subtract')\<close> debits the payment method, and the
  owner's summary is evicted. The argument \<open>expense\<close> is the entity before its key is
  assigned; it has no relation object, and its foreign keys are written as they are. The
  insert throws when the amount is out of the column's range, before anything is written;
  otherwise the row holds the rounded amount, while the entity \<open>saved\<close> and the debit
  carry the amount of the request. A debit that throws leaves the row inserted and the
  summary cached.\<close>

definition saveAndDebit :: "state \<Rightarrow> uuid \<Rightarrow> Expense \<Rightarrow> state \<times> (error + Expense)" where
  "saveAndDebit s userId expense =
     (case decimalColumn (e_amount expense) of
        Inl err \<Rightarrow> (s, Inl err)
      | Inr amount \<Rightarrow>
     (let saved = expense\<lparr>e_id := freshId (map e_id (expenses s))\<rparr>;
          s1 = s\<lparr>expenses := expenses s @ [saved\<lparr>e_amount := amount\<rparr>]\<rparr>
      in case PaymentMethodsService_updateBalance s1 userId (e_paymentMethodId saved)
                (e_amount saved) Subtract of
           (s2, Inl err) \<Rightarrow> (s2, Inl err)
         | (s2, Inr pm) \<Rightarrow> (invalidateCache s2 userId, Inr saved)))"

definition ExpensesService_create ::
  "state \<Rightarrow> uuid \<Rightarrow> CreateExpenseDto \<Rightarrow> state \<times> (error + Expense)" where
  "ExpensesService_create s userId dto =
     (case cat_findOne s userId (ce_categoryId dto) of
        Inl err \<Rightarrow> (s, Inl err)
      | Inr category \<Rightarrow>
     (case pm_findOne s userId (ce_paymentMethodId dto) of
        Inl err \<Rightarrow> (s, Inl err)
      | Inr paymentMethod \<Rightarrow>
          saveAndDebit s userId
            \<lparr> e_id = 0, e_amount = ce_amount dto, e_description = ce_description dto,
              e_notes = ce_notes dto, e_date = ce_date dto, e_source = MANUAL,
              e_receiptUrl = None, e_receiptS3Key = None, e_ocrData = None,
              e_voiceTranscription = None, e_voiceAudioUrl = None, e_voiceAudioS3Key = None,
              e_userId = userId, e_categoryId = ce_categoryId dto,
              e_paymentMethodId = ce_paymentMethodId dto \<rparr>))"

text \<open>What the storage service returns for an upload; \<open>None\<close> in the functions below
  stands for an upload that throws.\<close>

record UploadResult =
  ur_key :: string
  ur_url :: string

record OcrExpenseData =
  od_amount :: rat
  od_description :: string
  od_date :: CalendarDate
  od_paymentMethodId :: uuid
  od_categoryId :: uuid
  od_ocrData :: "string option"

definition ExpensesService_createFromOcr ::
  "UploadResult option \<Rightarrow> state \<Rightarrow> uuid \<Rightarrow> OcrExpenseData \<Rightarrow> state \<times> (error + Expense)" where
  "ExpensesService_createFromOcr uploadReceipt s userId data =
     (case cat_findOne s userId (od_categoryId data) of
        Inl err \<Rightarrow> (s, Inl err)
      | Inr category \<Rightarrow>
     (case pm_findOne s userId (od_paymentMethodId data) of
        Inl err \<Rightarrow> (s, Inl err)
      | Inr paymentMethod \<Rightarrow>
     (case uploadReceipt of
        None \<Rightarrow> (s, Inl UploadFailure)
      | Some uploadResult \<Rightarrow>
          saveAndDebit s userId
            \<lparr> e_id = 0, e_amount = od_amount data, e_description = od_description data,
              e_notes = None, e_date = od_date data, e_source = OCR,
              e_receiptUrl = Some (ur_url uploadResult),
              e_receiptS3Key = Some (ur_key uploadResult), e_ocrData = od_ocrData data,
              e_voiceTranscription = None, e_voiceAudioUrl = None, e_voiceAudioS3Key = None,
              e_userId = userId, e_categoryId = od_categoryId data,
              e_paymentMethodId = od_paymentMethodId data \<rparr>)))"

record VoiceExpenseData =
  vd_amount :: rat
  vd_description :: string
  vd_date :: CalendarDate
  vd_paymentMethodId :: uuid
  vd_categoryId :: uuid
  vd_transcription :: string

text \<open>\<open>audioFile\<close> is optional: the outer \<open>None\<close> is a call without a file, \<open>Some None\<close> an
  upload that throws.\<close>

definition ExpensesService_createFromVoice ::
  "UploadResult option option \<Rightarrow> state \<Rightarrow> uuid \<Rightarrow> VoiceExpenseData
     \<Rightarrow> state \<times> (error + Expense)" where
  "ExpensesService_createFromVoice uploadVoiceRecording s userId data =
     (case cat_findOne s userId (vd_categoryId data) of
        Inl err \<Rightarrow> (s, Inl err)
      | Inr category \<Rightarrow>
     (case pm_findOne s userId (vd_paymentMethodId data) of
        Inl err \<Rightarrow> (s, Inl err)
      | Inr paymentMethod \<Rightarrow>
     (case uploadVoiceRecording of
        Some None \<Rightarrow> (s, Inl UploadFailure)
      | audio \<Rightarrow>
          saveAndDebit s userId
            \<lparr> e_id = 0, e_amount = vd_amount data, e_description = vd_description data,
              e_notes = None, e_date = vd_date data, e_source = VOICE,
              e_receiptUrl = None, e_receiptS3Key = None, e_ocrData = None,
              e_voiceTranscription = Some (vd_transcription data),
              e_voiceAudioUrl = (case audio of Some (Some r) \<Rightarrow> Some (ur_url r) | other \<Rightarrow> None),
              e_voiceAudioS3Key = (case audio of Some (Some r) \<Rightarrow> Some (ur_key r) | other \<Rightarrow> None),
              e_userId = userId, e_categoryId = vd_categoryId data,
              e_paymentMethodId = vd_paymentMethodId data \<rparr>)))"

text \<open>\<open>Object.assign(expense, updateExpenseDto)\<close>: the entity in memory, which \<open>update\<close>
  returns.\<close>

definition exp_assign :: "Expense \<Rightarrow> UpdateExpenseDto \<Rightarrow> Expense" where
  "exp_assign e dto =
     e\<lparr> e_amount := (case ue_amount dto of None \<Rightarrow> e_amount e | Some v \<Rightarrow> v),
        e_description := (case ue_description dto of None \<Rightarrow> e_description e | Some v \<Rightarrow> v),
        e_notes := (case ue_notes dto of None \<Rightarrow> e_notes e | Some v \<Rightarrow> Some v),
        e_date := (case ue_date dto of None \<Rightarrow> e_date e | Some v \<Rightarrow> v),
        e_categoryId := (case ue_categoryId dto of None \<Rightarrow> e_categoryId e | Some v \<Rightarrow> v),
        e_paymentMethodId :=
          (case ue_paymentMethodId dto of None \<Rightarrow> e_paymentMethodId e | Some v \<Rightarrow> v) \<rparr>"

text \<open>\<open>update\<close>: the two validations run when the DTO carries the id (a uuid is a truthy
  string). \<open>save\<close> writes the row \<open>exp_row expense updated amount\<close>: the amount column takes
  the rounded amount of the DTO, or keeps its value when the DTO has none, and the save
  throws, nothing written, when that amount is out of range. The balances are then moved
  by the properties of the entity in memory: the amount of the request, unrounded, and the
  \<open>paymentMethodId\<close> of the DTO. A balance update that throws leaves the row written, the
  balances as far as they were moved, and the summary cached.\<close>

definition ExpensesService_update ::
  "state \<Rightarrow> uuid \<Rightarrow> uuid \<Rightarrow> UpdateExpenseDto \<Rightarrow> state \<times> (error + Expense)" where
  "ExpensesService_update s userId ident dto =
     (case exp_findOne s userId ident of
        Inl err \<Rightarrow> (s, Inl err)
      | Inr expense \<Rightarrow>
     (let oldAmount = e_amount expense; oldPaymentMethodId = e_paymentMethodId expense in
     (case (case ue_categoryId dto of None \<Rightarrow> None
            | Some c \<Rightarrow> (case cat_findOne s userId c of Inl err \<Rightarrow> Some err | Inr category \<Rightarrow> None)) of
        Some err \<Rightarrow> (s, Inl err)
      | None \<Rightarrow>
     (case (case ue_paymentMethodId dto of None \<Rightarrow> None
            | Some p \<Rightarrow> (case pm_findOne s userId p of Inl err \<Rightarrow> Some err | Inr pm \<Rightarrow> None)) of
        Some err \<Rightarrow> (s, Inl err)
      | None \<Rightarrow>
     (let updated = exp_assign expense dto in
     (case (case ue_amount dto of None \<Rightarrow> Inr (e_amount expense) | Some v \<Rightarrow> decimalColumn v) of
        Inl err \<Rightarrow> (s, Inl err)
      | Inr amount \<Rightarrow>
     (let s1 = s\<lparr>expenses := exp_save (exp_row expense updated amount) (expenses s)\<rparr>;
          newAmount = e_amount updated;
          newPaymentMethodId = e_paymentMethodId updated
      in if oldAmount \<noteq> newAmount \<or> oldPaymentMethodId \<noteq> newPaymentMethodId
         then (case PaymentMethodsService_updateBalance s1 userId oldPaymentMethodId oldAmount Add of
                 (s2, Inl err) \<Rightarrow> (s2, Inl err)
               | (s2, Inr pm) \<Rightarrow>
              (case PaymentMethodsService_updateBalance s2 userId newPaymentMethodId newAmount
                      Subtract of
                 (s3, Inl err) \<Rightarrow> (s3, Inl err)
               | (s3, Inr pm') \<Rightarrow> (invalidateCache s3 userId, Inr updated)))
         else (invalidateCache s1 userId, Inr updated))))))))"

text \<open>\<open>remove\<close>: \<open>deleteFile\<close> is the storage service's S3 deletion, which rethrows the
  error of a failed request; \<open>deleteFile key\<close> tells whether the deletion of \<open>key\<close> goes
  through. A key is deleted when the column holds a non-empty string.\<close>

definition ExpensesService_remove ::
  "(string \<Rightarrow> bool) \<Rightarrow> state \<Rightarrow> uuid \<Rightarrow> uuid \<Rightarrow> state \<times> (error + unit)" where
  "ExpensesService_remove deleteFile s userId ident =
     (case exp_findOne s userId ident of
        Inl err \<Rightarrow> (s, Inl err)
      | Inr expense \<Rightarrow>
     (case PaymentMethodsService_updateBalance s userId (e_paymentMethodId expense)
             (e_amount expense) Add of
        (s1, Inl err) \<Rightarrow> (s1, Inl err)
      | (s1, Inr pm) \<Rightarrow>
          (if (case e_receiptS3Key expense of None \<Rightarrow> False | Some k \<Rightarrow> k \<noteq> [] \<and> \<not> deleteFile k)
           then (s1, Inl DeleteFailure)
           else if (case e_voiceAudioS3Key expense of None \<Rightarrow> False
                    | Some k \<Rightarrow> k \<noteq> [] \<and> \<not> deleteFile k)
           then (s1, Inl DeleteFailure)
           else (invalidateCache
                   (s1\<lparr>expenses := filter (\<lambda>e. e_id e \<noteq> e_id expense) (expenses s1)\<rparr>) userId,
                 Inr ()))))"

subsection \<open>Summary\<close>

text \<open>The month windows: \<open>startOfMonth(now)\<close> to \<open>endOfMonth(now)\<close>, and the same for
  \<open>subMonths(now, 1)\<close>. A date lies in the window of a day when both have the same year
  and month.\<close>

definition subMonths1 :: "CalendarDate \<Rightarrow> CalendarDate" where
  "subMonths1 d = (if month d \<le> 1 then d\<lparr>year := year d - 1, month := 12\<rparr>
                   else d\<lparr>month := month d - 1\<rparr>)"

definition inMonthOf :: "CalendarDate \<Rightarrow> CalendarDate \<Rightarrow> bool" where
  "inMonthOf d x = (year x = year d \<and> month x = month d)"

definition sumAmount :: "Expense list \<Rightarrow> rat" where
  "sumAmount es = sum_list (map e_amount es)"

text \<open>JavaScript division and multiplication, exact on finite values; the divisor
  \<open>totalAmount\<close> is never negative zero, since \<open>parseFloat(x) || 0\<close> replaces it by \<open>0\<close>.\<close>

definition js_div :: "rat \<Rightarrow> rat \<Rightarrow> jsnumber" where
  "js_div a b = (if b \<noteq> 0 then Finite (a / b)
                 else if a = 0 then NaN
                 else if 0 < a then PosInfinity else NegInfinity)"

definition js_times :: "jsnumber \<Rightarrow> rat \<Rightarrow> jsnumber" where
  "js_times x k = (case x of
       Finite r \<Rightarrow> Finite (r * k)
     | NaN \<Rightarrow> NaN
     | PosInfinity \<Rightarrow> (if 0 < k then PosInfinity else if k < 0 then NegInfinity else NaN)
     | NegInfinity \<Rightarrow> (if 0 < k then NegInfinity else if k < 0 then PosInfinity else NaN))"

text \<open>\<open>GROUP BY category.id\<close> over the left join with the categories: one group per key,
  the key being null (\<open>None\<close>) for an expense whose category row is missing; groups are
  ordered by total, descending. The order among groups of equal total is the database's
  choice; the model fixes one.

  The select lists name their columns with unquoted aliases
  (\<^verbatim>\<open>category.id as categoryId\<close>, \<^verbatim>\<open>pm.name as paymentMethodName\<close>). PostgreSQL folds
  an unquoted alias to lower case, so the raw rows have the keys \<open>categoryid\<close>,
  \<open>categoryname\<close>, \<open>categorycolor\<close>, \<open>paymentmethodid\<close>, \<open>paymentmethodname\<close>, and the
  properties \<open>categoryId\<close>, \<open>categoryName\<close>, \<open>categoryColor\<close>, \<open>paymentMethodId\<close> and
  \<open>paymentMethodName\<close> that \<open>getSummary\<close> reads from them are \<open>undefined\<close> (\<open>None\<close>) in
  every entry. The aliases \<open>count\<close> and \<open>total\<close> are lower case as written.\<close>

definition categoryKey :: "state \<Rightarrow> Expense \<Rightarrow> uuid option" where
  "categoryKey s e = map_option c_id (find (\<lambda>c. c_id c = e_categoryId e) (categories s))"

definition paymentMethodKey :: "state \<Rightarrow> Expense \<Rightarrow> uuid option" where
  "paymentMethodKey s e =
     map_option pm_id (find (\<lambda>p. pm_id p = e_paymentMethodId e) (paymentMethods s))"

definition summaryByCategory :: "state \<Rightarrow> Expense list \<Rightarrow> rat \<Rightarrow> CategoryBreakdown list" where
  "summaryByCategory s mine totalAmt =
     sort_key (\<lambda>g. - cb_total g)
       (map (\<lambda>k. let grp = filter (\<lambda>e. categoryKey s e = k) mine
                 in \<lparr> cb_categoryId = None, cb_categoryName = None, cb_categoryColor = None,
                      cb_count = length grp, cb_total = sumAmount grp,
                      cb_percentage = js_times (js_div (sumAmount grp) totalAmt) 100 \<rparr>)
            (remdups (map (categoryKey s) mine)))"

definition summaryByPaymentMethod ::
  "state \<Rightarrow> Expense list \<Rightarrow> rat \<Rightarrow> PaymentMethodBreakdown list" where
  "summaryByPaymentMethod s mine totalAmt =
     sort_key (\<lambda>g. - pb_total g)
       (map (\<lambda>k. let grp = filter (\<lambda>e. paymentMethodKey s e = k) mine
                 in \<lparr> pb_paymentMethodId = None, pb_paymentMethodName = None,
                      pb_count = length grp, pb_total = sumAmount grp,
                      pb_percentage = js_times (js_div (sumAmount grp) totalAmt) 100 \<rparr>)
            (remdups (map (paymentMethodKey s) mine)))"

text \<open>The summary \<open>getSummary\<close> builds on a cache miss. \<open>parseFloat(x) || 0\<close> turns the
  null of an aggregate over no rows into \<open>0\<close>.\<close>

definition buildSummary :: "state \<Rightarrow> CalendarDate \<Rightarrow> uuid \<Rightarrow> ExpenseSummaryDto" where
  "buildSummary s now userId =
     (let mine = filter (\<lambda>e. e_userId e = userId) (expenses s);
          total = sumAmount mine;
          currentMonth = sumAmount (filter (\<lambda>e. inMonthOf now (e_date e)) mine);
          lastMonth = sumAmount (filter (\<lambda>e. inMonthOf (subMonths1 now) (e_date e)) mine)
      in \<lparr> totalExpenses = length mine,
           totalAmount = total,
           averageExpense = (if mine = [] then 0 else total / of_nat (length mine)),
           currentMonthTotal = currentMonth,
           lastMonthTotal = lastMonth,
           percentageChange =
             (if 0 < lastMonth then ((currentMonth - lastMonth) / lastMonth) * 100 else 0),
           byCategory = summaryByCategory s mine total,
           byPaymentMethod = summaryByPaymentMethod s mine total \<rparr>)"

definition ExpensesService_getSummary ::
  "state \<Rightarrow> CalendarDate \<Rightarrow> uuid \<Rightarrow> state \<times> ExpenseSummaryDto" where
  "ExpensesService_getSummary s now userId =
     (case summaryCache s userId of
        Some cached \<Rightarrow> (s, cached)
      | None \<Rightarrow>
          (let summary = buildSummary s now userId
           in (s\<lparr>summaryCache := (summaryCache s)(userId := Some summary)\<rparr>, summary)))"

subsection \<open>Category suggestion\<close>

definition toLowerCaseChar :: "char \<Rightarrow> char" where
  "toLowerCaseChar c =
     (case map_of (zip ''ABCDEFGHIJKLMNOPQRSTUVWXYZ'' ''abcdefghijklmnopqrstuvwxyz'') c of
        None \<Rightarrow> c
      | Some l \<Rightarrow> l)"

text \<open>\<open>String.prototype.toLowerCase\<close> on the ASCII letters. The keys of \<open>categoryMap\<close> are
  ASCII and contain no \<open>k\<close>, so a hint with any other character matches no key, lowered
  or not.\<close>

definition toLowerCase :: "string \<Rightarrow> string" where
  "toLowerCase str = map toLowerCaseChar str"

text \<open>The table of \<open>suggestCategoryFromHint\<close>. The name of the education category is
  spelt with the two bytes of its accented letter in UTF-8.\<close>

definition categoryMap :: "(string \<times> string) list" where
  "categoryMap =
     [(''comida'', ''Comida''),
      (''transporte'', ''Transporte''),
      (''entretenimiento'', ''Entretenimiento''),
      (''salud'', ''Salud''),
      (''educacion'', ''Educaci'' @ [char_of (195::nat), char_of (179::nat)] @ ''n''),
      (''compras'', ''Compras''),
      (''servicios'', ''Servicios'')]"

text \<open>\<open>suggestCategory\<close> does not look at the description: it returns the id of the
  category named \<open>Otros\<close>, or else of the first category of the list, or \<open>undefined\<close>
  (\<open>None\<close>) when the list is empty.\<close>

definition ExpensesService_suggestCategory ::
  "state \<Rightarrow> uuid \<Rightarrow> string \<Rightarrow> state \<times> uuid option" where
  "ExpensesService_suggestCategory s userId description =
     (case CategoriesService_findAll s userId of
        (s1, cats) \<Rightarrow>
          (s1, case find (\<lambda>cat. c_name cat = ''Otros'') cats of
                 Some othersCategory \<Rightarrow> Some (c_id othersCategory)
               | None \<Rightarrow> (case cats of [] \<Rightarrow> None | c # cs \<Rightarrow> Some (c_id c))))"

definition ExpensesService_suggestCategoryFromHint ::
  "state \<Rightarrow> uuid \<Rightarrow> string option \<Rightarrow> state \<times> uuid option" where
  "ExpensesService_suggestCategoryFromHint s userId hint =
     (case hint of
        None \<Rightarrow> ExpensesService_suggestCategory s userId []
      | Some h \<Rightarrow>
          (if h = [] then ExpensesService_suggestCategory s userId []
           else (case CategoriesService_findAll s userId of
                   (s1, cats) \<Rightarrow>
                     (case map_of categoryMap (toLowerCase h) of
                        None \<Rightarrow> ExpensesService_suggestCategory s1 userId []
                      | Some categoryName \<Rightarrow>
                          (case find (\<lambda>cat. c_name cat = categoryName) cats of
                             Some category \<Rightarrow> (s1, Some (c_id category))
                           | None \<Rightarrow> ExpensesService_suggestCategory s1 userId [])))))"

section \<open>Sequences of requests\<close>

text \<open>A request to the payment-method service, and a run of requests: each request acts
  on the state its predecessor left, whether that one succeeded or threw.\<close>

datatype pm_op =
    PmCreate uuid CreatePaymentMethodDto
  | PmUpdate uuid uuid UpdatePaymentMethodDto
  | PmSetDefault uuid uuid

fun pm_exec :: "pm_op \<Rightarrow> state \<Rightarrow> state \<times> (error + PaymentMethod)" where
  "pm_exec (PmCreate userId dto) s = PaymentMethodsService_create s userId dto"
| "pm_exec (PmUpdate userId ident dto) s = PaymentMethodsService_update s userId ident dto"
| "pm_exec (PmSetDefault userId ident) s = PaymentMethodsService_setDefault s userId ident"

fun pm_owner :: "pm_op \<Rightarrow> uuid" where
  "pm_owner (PmCreate userId dto) = userId"
| "pm_owner (PmUpdate userId ident dto) = userId"
| "pm_owner (PmSetDefault userId ident) = userId"

text \<open>The requests that ask for a default: \<open>setDefault\<close>, and a \<open>create\<close> or \<open>update\<close> whose
  DTO has \<open>isDefault = true\<close>.\<close>

fun pm_setsDefault :: "pm_op \<Rightarrow> bool" where
  "pm_setsDefault (PmCreate userId dto) = (cpm_isDefault dto = Some True)"
| "pm_setsDefault (PmUpdate userId ident dto) = (upm_isDefault dto = Some True)"
| "pm_setsDefault (PmSetDefault userId ident) = True"

definition pm_step :: "pm_op \<Rightarrow> state \<Rightarrow> state" where
  "pm_step op s = fst (pm_exec op s)"

definition pm_run :: "pm_op list \<Rightarrow> state \<Rightarrow> state" where
  "pm_run ops s = fold pm_step ops s"

text \<open>The payment methods of an owner that are flagged as default.\<close>

definition defaultsOf :: "uuid \<Rightarrow> state \<Rightarrow> PaymentMethod list" where
  "defaultsOf userId s = filter (\<lambda>p. pm_userId p = userId \<and> pm_isDefault p) (paymentMethods s)"

text \<open>A request to the expense ledger, with what the storage service does during it.\<close>

datatype ledger_op =
    LCreate uuid CreateExpenseDto
  | LCreateFromOcr "UploadResult option" uuid OcrExpenseData
  | LCreateFromVoice "UploadResult option option" uuid VoiceExpenseData
  | LUpdate uuid uuid UpdateExpenseDto
  | LRemove "string \<Rightarrow> bool" uuid uuid

definition dropValue :: "state \<times> (error + 'a) \<Rightarrow> state \<times> (error + unit)" where
  "dropValue r = (fst r, case snd r of Inl err \<Rightarrow> Inl err | Inr v \<Rightarrow> Inr ())"

fun ledger_exec :: "ledger_op \<Rightarrow> state \<Rightarrow> state \<times> (error + unit)" where
  "ledger_exec (LCreate userId dto) s = dropValue (ExpensesService_create s userId dto)"
| "ledger_exec (LCreateFromOcr up userId data) s =
     dropValue (ExpensesService_createFromOcr up s userId data)"
| "ledger_exec (LCreateFromVoice up userId data) s =
     dropValue (ExpensesService_createFromVoice up s userId data)"
| "ledger_exec (LUpdate userId ident dto) s = dropValue (ExpensesService_update s userId ident dto)"
| "ledger_exec (LRemove deleteFile userId ident) s =
     ExpensesService_remove deleteFile s userId ident"

fun ledger_owner :: "ledger_op \<Rightarrow> uuid" where
  "ledger_owner (LCreate userId dto) = userId"
| "ledger_owner (LCreateFromOcr up userId data) = userId"
| "ledger_owner (LCreateFromVoice up userId data) = userId"
| "ledger_owner (LUpdate userId ident dto) = userId"
| "ledger_owner (LRemove deleteFile userId ident) = userId"

definition ledger_step :: "ledger_op \<Rightarrow> state \<Rightarrow> state" where
  "ledger_step op s = fst (ledger_exec op s)"

definition ledger_run :: "ledger_op list \<Rightarrow> state \<Rightarrow> state" where
  "ledger_run ops s = fold ledger_step ops s"

text \<open>The amounts of the live expenses charged against a payment method, and the balance
  the table holds for it.\<close>

definition charged :: "uuid \<Rightarrow> state \<Rightarrow> rat" where
  "charged pmId s = sumAmount (filter (\<lambda>e. e_paymentMethodId e = pmId) (expenses s))"

definition balanceOf :: "state \<Rightarrow> uuid \<Rightarrow> rat option" where
  "balanceOf s pmId = map_option pm_balance (find (\<lambda>p. pm_id p = pmId) (paymentMethods s))"

text \<open>An id resolves for a caller when it is the key of a category the caller owns or of a
  system category: the ids for which \<open>findOne\<close> does not throw.\<close>

definition resolves :: "state \<Rightarrow> uuid \<Rightarrow> uuid \<Rightarrow> bool" where
  "resolves s userId ident =
     list_ex (\<lambda>c. c_id c = ident \<and> (c_userId c = Some userId \<or> c_isSystem c)) (categories s)"

text \<open>The last position at which \<open>y\<close> stands in a list (\<open>0\<close> when it does not occur).\<close>

fun lastPosition :: "'a list \<Rightarrow> 'a \<Rightarrow> nat" where
  "lastPosition [] y = 0"
| "lastPosition (x # xs) y = (if y \<in> set xs then Suc (lastPosition xs y) else 0)"

section \<open>Example states\<close>

definition emptyState :: state where
  "emptyState = \<lparr> categories = [], paymentMethods = [], expenses = [],
     summaryCache = (\<lambda>u. None), categoriesCache = (\<lambda>u. None),
     paymentMethodsCache = (\<lambda>k. None) \<rparr>"

definition today :: CalendarDate where
  "today = \<lparr> year = 2026, month = 11, day = 2 \<rparr>"

definition paymentMethodDto :: "string \<Rightarrow> rat \<Rightarrow> CreatePaymentMethodDto" where
  "paymentMethodDto name balance = \<lparr> cpm_name = name, cpm_type = CASH, cpm_lastFourDigits = None,
     cpm_bankName = None, cpm_icon = None, cpm_color = None, cpm_balance = Some balance,
     cpm_creditLimit = None, cpm_expirationDate = None, cpm_isDefault = None \<rparr>"

definition categoryDto :: "string \<Rightarrow> int \<Rightarrow> CreateCategoryDto" where
  "categoryDto name orderIndex = \<lparr> cc_name = name, cc_description = None, cc_icon = None,
     cc_color = ''#FF6B6B'', cc_orderIndex = Some orderIndex \<rparr>"

definition expenseDto :: "rat \<Rightarrow> CalendarDate \<Rightarrow> CreateExpenseDto" where
  "expenseDto amount d = \<lparr> ce_amount = amount, ce_description = ''Compra'', ce_notes = None,
     ce_date = d, ce_categoryId = 1, ce_paymentMethodId = 1 \<rparr>"

definition noChange :: UpdateExpenseDto where
  "noChange = \<lparr> ue_amount = None, ue_description = None, ue_notes = None, ue_date = None,
     ue_categoryId = None, ue_paymentMethodId = None \<rparr>"

definition noPmChange :: UpdatePaymentMethodDto where
  "noPmChange = \<lparr> upm_name = None, upm_type = None, upm_lastFourDigits = None,
     upm_bankName = None, upm_icon = None, upm_color = None, upm_balance = None,
     upm_creditLimit = None, upm_expirationDate = None, upm_isDefault = None,
     upm_isActive = None \<rparr>"

text \<open>Owner 1 with the payment method Cash (key 1, balance 100.00) and the category
  Mercado (key 1), and no expense.\<close>

definition cashState :: state where
  "cashState =
     fst (CategoriesService_create
            (fst (PaymentMethodsService_create emptyState 1 (paymentMethodDto ''Cash'' 100)))
            1 (categoryDto ''Mercado'' 0))"

text \<open>The same owner after an expense of 40.00 in October 2026 and one of 50.00 in
  November 2026.\<close>

definition twoMonthsState :: state where
  "twoMonthsState =
     fst (ExpensesService_create
            (fst (ExpensesService_create cashState 1
                    (expenseDto 40 \<lparr> year = 2026, month = 10, day = 5 \<rparr>)))
            1 (expenseDto 50 \<lparr> year = 2026, month = 11, day = 1 \<rparr>))"

text \<open>A scanned receipt on which the OCR fallback (\<open>extractBasicInfo\<close>) finds no amount: it
  returns the amount \<open>0\<close> and the description \<open>Gasto\<close>, and \<open>createFromOcr\<close> stores them.\<close>

definition blankReceipt :: OcrExpenseData where
  "blankReceipt = \<lparr> od_amount = 0, od_description = ''Gasto'', od_date = today,
     od_paymentMethodId = 1, od_categoryId = 1, od_ocrData = None \<rparr>"

definition receipt :: "rat \<Rightarrow> OcrExpenseData" where
  "receipt amount = \<lparr> od_amount = amount, od_description = ''Gasto'', od_date = today,
     od_paymentMethodId = 1, od_categoryId = 1, od_ocrData = None \<rparr>"

definition receiptUpload :: UploadResult where
  "receiptUpload = \<lparr> ur_key = ''receipts/1/a.jpg'', ur_url = ''https://s3/receipts/1/a.jpg'' \<rparr>"

definition blankReceiptState :: state where
  "blankReceiptState =
     fst (ExpensesService_createFromOcr (Some receiptUpload) cashState 1 blankReceipt)"

text \<open>Owner 1 after \<open>setDefault\<close> on Cash, and after deactivating it then.\<close>

definition defaultCashState :: state where
  "defaultCashState = fst (PaymentMethodsService_setDefault cashState 1 1)"

definition deactivatedDefaultState :: state where
  "deactivatedDefaultState =
     fst (PaymentMethodsService_update defaultCashState 1 1 (noPmChange\<lparr>upm_isActive := Some False\<rparr>))"

text \<open>The system catalogue seeded, then owner 1 with the categories Mercado and Other.\<close>

definition seededState :: state where
  "seededState =
     fst (CategoriesService_create
            (fst (CategoriesService_create (CategoriesService_createDefaultCategories emptyState)
                    1 (categoryDto ''Mercado'' 0)))
            1 (categoryDto ''Other'' 1))"

text \<open>Owner 1 with the categories Mercado and Other and no system category.\<close>

definition otherState :: state where
  "otherState =
     fst (CategoriesService_create
            (fst (CategoriesService_create emptyState 1 (categoryDto ''Mercado'' 0)))
            1 (categoryDto ''Other'' 1))"

text \<open>Owner 1 with the categories Mercado (key 1) and Hogar (key 3), owner 2 with the
  category Viajes (key 2), and the system catalogue (keys 4 to 11).\<close>

definition sharedState :: state where
  "sharedState =
     CategoriesService_createDefaultCategories
       (fst (CategoriesService_create
          (fst (CategoriesService_create
             (fst (CategoriesService_create emptyState 1 (categoryDto ''Mercado'' 0)))
             2 (categoryDto ''Viajes'' 0)))
          1 (categoryDto ''Hogar'' 1)))"

text \<open>Owner 1 creates the payment method A as default, then B, then sets A default.\<close>

definition abOps :: "pm_op list" where
  "abOps = [PmCreate 1 ((paymentMethodDto ''A'' 0)\<lparr>cpm_isDefault := Some True\<rparr>),
            PmCreate 1 (paymentMethodDto ''B'' 0),
            PmSetDefault 1 1]"

text \<open>Updates of an expense's amount, and \<open>twoMonthsState\<close> with the owner's summary
  cached by a call of \<open>getSummary\<close>.\<close>

definition amountDto :: "rat \<Rightarrow> UpdateExpenseDto" where
  "amountDto amount = noChange\<lparr>ue_amount := Some amount\<rparr>"

definition cachedState :: state where
  "cachedState = fst (ExpensesService_getSummary twoMonthsState today 1)"

text \<open>Owner 1 with the payment methods Cash (key 1, balance 100.00) and Card (key 2, balance
  500.00), the categories Mercado (key 1) and Hogar (key 2), and one expense of 30.00
  (key 1) in Mercado, paid in cash. The DTO \<open>moveDto\<close> asks to move an expense to Hogar and
  Card, with the amount 45.678; \<open>cardDto\<close> asks to move it to Card and nothing else.\<close>

definition twoWalletsState :: state where
  "twoWalletsState =
     fst (ExpensesService_create
            (fst (CategoriesService_create
                    (fst (PaymentMethodsService_create cashState 1 (paymentMethodDto ''Card'' 500)))
                    1 (categoryDto ''Hogar'' 1)))
            1 (expenseDto 30 today))"


definition cardDto :: UpdateExpenseDto where
  "cardDto = noChange\<lparr>ue_paymentMethodId := Some 2\<rparr>"

text \<open>Owner 1 with the payment method Cash at balance 0.00, one expense of
  9999999999999.99, the largest amount of the column, which has taken the balance to
  -9999999999999.99, and the summary cached by a call of \<open>getSummary\<close>.\<close>

definition overdrawnState :: state where
  "overdrawnState =
     fst (ExpensesService_getSummary
            (fst (ExpensesService_create
                    (fst (CategoriesService_create
                            (fst (PaymentMethodsService_create emptyState 1 (paymentMethodDto ''Cash'' 0)))
                            1 (categoryDto ''Mercado'' 0)))
                    1 (expenseDto (999999999999999 / 100) today)))
            today 1)"

text \<open>The storage service refusing, or carrying out, every deletion.\<close>

definition storageDown :: "string \<Rightarrow> bool" where
  "storageDown key = False"

definition storageUp :: "string \<Rightarrow> bool" where
  "storageUp key = True"

text \<open>Owner 1 stores a scanned receipt of 30.00 against Cash, then deletes the expense
  while the storage service is down.\<close>

definition scanRun :: "ledger_op list" where
  "scanRun = [LCreateFromOcr (Some receiptUpload) 1 (receipt 30)]"

definition failedDeleteRun :: "ledger_op list" where
  "failedDeleteRun = scanRun @ [LRemove storageDown 1 1]"

section \<open>Properties\<close>

subsection \<open>Lookups and keys\<close>

lemma pm_findOne_Inr:
  "pm_findOne s u i = Inr p \<Longrightarrow> p \<in> set (paymentMethods s) \<and> pm_id p = i \<and> pm_userId p = u"
  unfolding pm_findOne_def by (auto split: option.splits simp: find_Some_iff)

lemma cat_findOne_Inr:
  "cat_findOne s u i = Inr c \<Longrightarrow>
     c \<in> set (categories s) \<and> c_id c = i \<and> (c_userId c = Some u \<or> c_isSystem c)"
  unfolding cat_findOne_def by (auto split: option.splits simp: find_Some_iff)

lemma distinct_key_unique:
  assumes "distinct (map f xs)" and "a \<in> set xs" and "b \<in> set xs" and "f a = f b"
  shows "a = b"
  using assms by (meson distinct_map inj_onD)

lemma fold_max_init: "a \<le> fold max xs (a::nat)"
  by (induction xs arbitrary: a) (auto intro: order_trans[OF max.cobounded2])

lemma fold_max_member: "x \<in> set xs \<Longrightarrow> x \<le> fold max xs (a::nat)"
proof (induction xs arbitrary: a)
  case Nil
  then show ?case by simp
next
  case (Cons y ys)
  show ?case
  proof (cases "x = y")
    case True
    have "y \<le> max y a" by simp
    also have "\<dots> \<le> fold max ys (max y a)" by (rule fold_max_init)
    finally show ?thesis using True by simp
  next
    case False
    then show ?thesis using Cons by simp
  qed
qed

lemma freshId_fresh: "freshId ids \<notin> set ids"
  unfolding freshId_def using fold_max_member[of "Suc (fold max ids 0)" ids 0] by auto

subsection \<open>The deletion guards\<close>

lemma leftJoin_keeps_left:
  assumes "x \<in> set xs"
  shows "\<exists>r \<in> set (leftJoin on xs ys). fst r = x"
proof (cases "filter (on x) ys")
  case Nil
  then have "(x, None) \<in> set (leftJoin on xs ys)"
    using assms unfolding leftJoin_def by (force simp: image_iff)
  then show ?thesis by force
next
  case (Cons m ms)
  then have "(x, Some m) \<in> set (leftJoin on xs ys)"
    using assms unfolding leftJoin_def by (force simp: image_iff)
  then show ?thesis by force
qed

lemma getCount_positive:
  assumes "r \<in> set rows" and "key (fst r) = i"
  shows "0 < getCount key (filter (\<lambda>r. key (fst r) = i) rows)"
proof -
  have "r \<in> set (filter (\<lambda>r. key (fst r) = i) rows)" using assms by simp
  then have "filter (\<lambda>r. key (fst r) = i) rows \<noteq> []" by (metis empty_iff empty_set)
  then have "map (\<lambda>r. key (fst r)) (filter (\<lambda>r. key (fst r) = i) rows) \<noteq> []" by simp
  then have "remdups (map (\<lambda>r. key (fst r)) (filter (\<lambda>r. key (fst r) = i) rows)) \<noteq> []"
    by (metis remdups_eq_nil_iff)
  then show ?thesis unfolding getCount_def by simp
qed

lemma pm_hasExpenses_positive:
  assumes "p \<in> set (paymentMethods s)" and "pm_id p = i"
  shows "0 < pm_hasExpenses s i"
proof -
  obtain r where "r \<in> set (leftJoin (\<lambda>p e. e_paymentMethodId e = pm_id p) (paymentMethods s) (expenses s))"
    and "fst r = p"
    using leftJoin_keeps_left[OF assms(1)] by blast
  then show ?thesis unfolding pm_hasExpenses_def using getCount_positive assms(2) by fastforce
qed

text \<open>The count of the left join is positive for every payment method that exists,
  referenced or not, so \<open>remove\<close> never reaches its \<open>repository.remove\<close>: each call throws
  and leaves the state as it was. A payment method of the caller is refused with
  \<open>BadRequestException\<close>, whatever references it.\<close>

lemma PaymentMethodsService_remove_always_throws:
  "\<exists>e. PaymentMethodsService_remove s u i = (s, Inl e)"
proof (cases "pm_findOne s u i")
  case (Inl e)
  then show ?thesis unfolding PaymentMethodsService_remove_def by simp
next
  case (Inr p)
  then have "0 < pm_hasExpenses s i" using pm_findOne_Inr pm_hasExpenses_positive by blast
  then show ?thesis unfolding PaymentMethodsService_remove_def using Inr by simp
qed

lemma PaymentMethodsService_remove_owned:
  assumes "pm_findOne s u i = Inr p"
  shows "PaymentMethodsService_remove s u i = (s, Inl BadRequest)"
proof -
  have "0 < pm_hasExpenses s i" using assms pm_findOne_Inr pm_hasExpenses_positive by blast
  then show ?thesis unfolding PaymentMethodsService_remove_def using assms by simp
qed

text \<open>\<open>remove\<close> of a category never reaches its \<open>repository.remove\<close> either: the count
  query throws. A system category is refused with \<open>BadRequestException\<close> before the query;
  for a category of the caller the request ends in the \<open>TypeORMError\<close> of the query,
  whatever references the category.\<close>

lemma CategoriesService_remove_always_throws:
  "\<exists>e. CategoriesService_remove s u i = (s, Inl e)"
  unfolding CategoriesService_remove_def cat_hasExpenses_def by (simp split: sum.splits)

lemma CategoriesService_remove_system:
  assumes "cat_findOne s u i = Inr c" and "c_isSystem c"
  shows "CategoriesService_remove s u i = (s, Inl BadRequest)"
  unfolding CategoriesService_remove_def using assms by simp

lemma CategoriesService_remove_owned:
  assumes "cat_findOne s u i = Inr c" and "\<not> c_isSystem c"
  shows "CategoriesService_remove s u i = (s, Inl TypeORMError)"
proof -
  have "c_userId c = Some u" using cat_findOne_Inr[OF assms(1)] assms(2) by simp
  then show ?thesis
    unfolding CategoriesService_remove_def cat_hasExpenses_def using assms by simp
qed

text \<open>
  C3 (referential deletion guard). The claim has two halves: a delete of a referenced
  category or payment method fails with InvalidOperation and changes nothing, and a delete
  of an owned, unreferenced one succeeds and removes it. The code deletes no payment
  method and no category at all. In \<open>cashState\<close> owner 1 owns the payment method 1 and the
  category 1, the category is not a system one, and there is no expense: \<open>remove\<close> of the
  payment method throws \<open>BadRequestException\<close>, \<open>remove\<close> of the category throws
  \<open>TypeORMError\<close>, and both rows stay. In \<open>twoMonthsState\<close> the same two rows are referenced
  by two expenses: the payment method is refused with \<open>BadRequestException\<close>, as the first
  half says, the category with \<open>TypeORMError\<close> again; nothing changes.
\<close>

theorem remove_unreferenced_is_refused:
  "expenses cashState = [] \<and>
   map pm_id (paymentMethods cashState) = [1] \<and>
   map pm_userId (paymentMethods cashState) = [1] \<and>
   map c_id (categories cashState) = [1] \<and>
   map c_userId (categories cashState) = [Some 1] \<and>
   map c_isSystem (categories cashState) = [False] \<and>
   snd (PaymentMethodsService_remove cashState 1 1) = Inl BadRequest \<and>
   map pm_id (paymentMethods (fst (PaymentMethodsService_remove cashState 1 1))) = [1] \<and>
   snd (CategoriesService_remove cashState 1 1) = Inl TypeORMError \<and>
   map c_id (categories (fst (CategoriesService_remove cashState 1 1))) = [1] \<and>
   map e_paymentMethodId (expenses twoMonthsState) = [1, 1] \<and>
   map e_categoryId (expenses twoMonthsState) = [1, 1] \<and>
   snd (PaymentMethodsService_remove twoMonthsState 1 1) = Inl BadRequest \<and>
   map pm_id (paymentMethods (fst (PaymentMethodsService_remove twoMonthsState 1 1))) = [1] \<and>
   snd (CategoriesService_remove twoMonthsState 1 1) = Inl TypeORMError \<and>
   map c_id (categories (fst (CategoriesService_remove twoMonthsState 1 1))) = [1] \<and>
   map e_id (expenses (fst (CategoriesService_remove twoMonthsState 1 1))) = [1, 2]"
  by code_simp

subsection \<open>The summary\<close>

text \<open>
  C8 (month-over-month change). \<open>getSummary\<close> returns the cached summary when there is one;
  otherwise the summary it returns has, for its current-month and last-month totals, the
  sums of the owner's expenses dated in the month of \<open>now\<close> and in the month before, and
  its \<open>percentageChange\<close> is \<open>(current - previous) / previous * 100\<close> when the last-month
  total is greater than 0, and 0 otherwise.
\<close>

theorem getSummary_percentageChange:
  "(let r = snd (ExpensesService_getSummary s now userId);
        mine = filter (\<lambda>e. e_userId e = userId) (expenses s);
        current = sumAmount (filter (\<lambda>e. inMonthOf now (e_date e)) mine);
        previous = sumAmount (filter (\<lambda>e. inMonthOf (subMonths1 now) (e_date e)) mine)
    in case summaryCache s userId of
         Some cached \<Rightarrow> r = cached
       | None \<Rightarrow> currentMonthTotal r = current \<and> lastMonthTotal r = previous \<and>
           percentageChange r =
             (if 0 < previous then (current - previous) / previous * 100 else 0))"
  by (simp add: ExpensesService_getSummary_def buildSummary_def Let_def split: option.splits)

theorem getSummary_percentageChange_witness:
  "summaryCache twoMonthsState 1 = None \<and>
   lastMonthTotal (snd (ExpensesService_getSummary twoMonthsState today 1)) = 40 \<and>
   percentageChange (snd (ExpensesService_getSummary twoMonthsState today 1)) = 25 \<and>
   summaryCache cashState 1 = None \<and>
   lastMonthTotal (snd (ExpensesService_getSummary cashState today 1)) = 0 \<and>
   percentageChange (snd (ExpensesService_getSummary cashState today 1)) = 0"
proof -
  have miss: "summaryCache twoMonthsState 1 = None" "summaryCache cashState 1 = None"
    by code_simp+
  have prev: "sumAmount (filter (\<lambda>e. inMonthOf (subMonths1 today) (e_date e))
                 (filter (\<lambda>e. e_userId e = 1) (expenses twoMonthsState))) = 40"
    by code_simp
  have cur: "sumAmount (filter (\<lambda>e. inMonthOf today (e_date e))
                 (filter (\<lambda>e. e_userId e = 1) (expenses twoMonthsState))) = 50"
    by code_simp
  have prev0: "sumAmount (filter (\<lambda>e. inMonthOf (subMonths1 today) (e_date e))
                 (filter (\<lambda>e. e_userId e = 1) (expenses cashState))) = 0"
    by code_simp
  show ?thesis
    using getSummary_percentageChange[of twoMonthsState today 1]
      getSummary_percentageChange[of cashState today 1] miss prev cur prev0
    by (simp add: Let_def)
qed

text \<open>
  C5 (percentage-of-total guard). The claim: when the owner's total is 0, every entry of
  the two breakdowns has percentage 0, never NaN. The code divides by the total without a
  guard. In \<open>blankReceiptState\<close> owner 1 has one expense, of amount 0, stored by
  \<open>createFromOcr\<close>; the total is 0 and the one entry of each breakdown has the percentage
  \<open>0 / 0 * 100\<close>, which is NaN.
\<close>

theorem percentage_of_zero_total_is_NaN:
  "map e_amount (expenses blankReceiptState) = [0] \<and>
   totalAmount (snd (ExpensesService_getSummary blankReceiptState today 1)) = 0 \<and>
   map cb_percentage (byCategory (snd (ExpensesService_getSummary blankReceiptState today 1)))
     = [NaN] \<and>
   map pb_percentage (byPaymentMethod (snd (ExpensesService_getSummary blankReceiptState today 1)))
     = [NaN]"
  by code_simp

subsection \<open>The default payment method\<close>

text \<open>
  C10 (active default). \<open>getDefault\<close> returns a payment method only if it is one of the
  owner's, flagged default and active; when every method of the owner that is flagged
  default is inactive, it returns null (\<open>None\<close>). It has no error path.
\<close>

theorem getDefault_active_default:
  "(PaymentMethodsService_getDefault s userId = Some p \<longrightarrow>
      p \<in> set (paymentMethods s) \<and> pm_userId p = userId \<and> pm_isDefault p \<and> pm_isActive p) \<and>
   (list_all (\<lambda>p. \<not> pm_isActive p) (defaultsOf userId s) \<longrightarrow>
      PaymentMethodsService_getDefault s userId = None)"
  unfolding PaymentMethodsService_getDefault_def defaultsOf_def
  by (auto simp: find_Some_iff find_None_iff list_all_iff)

theorem getDefault_active_default_witness:
  "map pm_isActive (defaultsOf 1 deactivatedDefaultState) = [False] \<and>
   PaymentMethodsService_getDefault deactivatedDefaultState 1 = None \<and>
   map_option pm_id (PaymentMethodsService_getDefault defaultCashState 1) = Some 1 \<and>
   map_option pm_isActive (PaymentMethodsService_getDefault defaultCashState 1) = Some True \<and>
   map_option pm_isDefault (PaymentMethodsService_getDefault defaultCashState 1) = Some True"
proof -
  have inactive: "map pm_isActive (defaultsOf 1 deactivatedDefaultState) = [False]"
    by code_simp
  then have "list_all (\<lambda>p. \<not> pm_isActive p) (defaultsOf 1 deactivatedDefaultState)"
    by (auto simp: list_all_iff)
  then have none: "PaymentMethodsService_getDefault deactivatedDefaultState 1 = None"
    using getDefault_active_default[of deactivatedDefaultState 1] by blast
  have ident: "map_option pm_id (PaymentMethodsService_getDefault defaultCashState 1) = Some 1"
    by code_simp
  then obtain p where some: "PaymentMethodsService_getDefault defaultCashState 1 = Some p"
    by auto
  then have "pm_isDefault p \<and> pm_isActive p"
    using getDefault_active_default[of defaultCashState 1 p] by blast
  then show ?thesis using inactive none ident some by simp
qed

subsection \<open>Category suggestion\<close>

lemma findAll_twice:
  "CategoriesService_findAll (fst (CategoriesService_findAll s u)) u =
     (fst (CategoriesService_findAll s u), snd (CategoriesService_findAll s u))"
  unfolding CategoriesService_findAll_def by (simp add: Let_def split: option.splits)

text \<open>\<open>suggestCategory\<close> is the fallback alone, whatever the description.\<close>

lemma suggestCategory_fallback:
  "snd (ExpensesService_suggestCategory s userId description) =
     (let cats = snd (CategoriesService_findAll s userId)
      in case find (\<lambda>cat. c_name cat = ''Otros'') cats of
           Some others \<Rightarrow> Some (c_id others)
         | None \<Rightarrow> (case cats of [] \<Rightarrow> None | c # cs \<Rightarrow> Some (c_id c)))"
  unfolding ExpensesService_suggestCategory_def
  by (cases "CategoriesService_findAll s userId") (simp add: Let_def)

text \<open>
  C6 (category suggestion), as amended. The claim names the fallback category \<open>Other\<close>;
  the code looks for \<open>Otros\<close>, and its keywords are the Spanish ones of \<open>categoryMap\<close>.
  With \<open>cats\<close> the list \<open>findAll\<close> returns for the owner (own and system categories, in
  list order): \<open>suggestCategoryFromHint\<close> lower-cases the hint and looks it up in
  \<open>categoryMap\<close>; when the hint is a keyword and \<open>cats\<close> has a category of the mapped name,
  it returns the id of the first such category; in every other case (no hint, an empty
  hint, no keyword, no category of that name) it returns the id of the first category
  named \<open>Otros\<close>, or else of the first category of \<open>cats\<close>, or nothing when \<open>cats\<close> is
  empty.
\<close>

theorem suggestCategoryFromHint_rule:
  "snd (ExpensesService_suggestCategoryFromHint s userId hint) =
     (let cats = snd (CategoriesService_findAll s userId);
          fallback = (case find (\<lambda>cat. c_name cat = ''Otros'') cats of
                        Some others \<Rightarrow> Some (c_id others)
                      | None \<Rightarrow> (case cats of [] \<Rightarrow> None | c # cs \<Rightarrow> Some (c_id c)))
      in case hint of
           None \<Rightarrow> fallback
         | Some h \<Rightarrow>
             (case map_of categoryMap (toLowerCase h) of
                None \<Rightarrow> fallback
              | Some name \<Rightarrow>
                  (case find (\<lambda>cat. c_name cat = name) cats of
                     Some category \<Rightarrow> Some (c_id category)
                   | None \<Rightarrow> fallback)))"
proof -
  obtain s1 cats where fa: "CategoriesService_findAll s userId = (s1, cats)"
    by (cases "CategoriesService_findAll s userId")
  have again: "CategoriesService_findAll s1 userId = (s1, cats)"
    using findAll_twice[of s userId] fa by simp
  have empty: "map_of categoryMap (toLowerCase []) = None"
    by (simp add: categoryMap_def toLowerCase_def)
  show ?thesis
    unfolding ExpensesService_suggestCategoryFromHint_def ExpensesService_suggestCategory_def
    by (simp add: fa again empty Let_def split: option.splits list.splits)
qed

text \<open>In \<open>seededState\<close> the system catalogue has the keys 1 to 8 (\<open>Comida\<close> 1, \<open>Compras\<close> 4,
  \<open>Otros\<close> 8) and owner 1 has Mercado (9) and Other (10): the hint \<open>COMIDA\<close> gives 1, and
  the hint \<open>food\<close>, which is no keyword, gives \<open>Otros\<close>.\<close>

theorem suggestCategoryFromHint_rule_witness:
  "snd (ExpensesService_suggestCategoryFromHint seededState 1 (Some ''COMIDA'')) = Some 1 \<and>
   snd (ExpensesService_suggestCategoryFromHint seededState 1 (Some ''food'')) = Some 8"
proof -
  have "snd (ExpensesService_suggestCategoryFromHint seededState 1 (Some ''COMIDA'')) =
     (let cats = snd (CategoriesService_findAll seededState 1);
          fallback = (case find (\<lambda>cat. c_name cat = ''Otros'') cats of
                        Some others \<Rightarrow> Some (c_id others)
                      | None \<Rightarrow> (case cats of [] \<Rightarrow> None | c # cs \<Rightarrow> Some (c_id c)))
      in case Some ''COMIDA'' of
           None \<Rightarrow> fallback
         | Some h \<Rightarrow>
             (case map_of categoryMap (toLowerCase h) of
                None \<Rightarrow> fallback
              | Some name \<Rightarrow>
                  (case find (\<lambda>cat. c_name cat = name) cats of
                     Some category \<Rightarrow> Some (c_id category)
                   | None \<Rightarrow> fallback)))"
    by (rule suggestCategoryFromHint_rule)
  also have "\<dots> = Some 1" by code_simp
  finally have comida: "snd (ExpensesService_suggestCategoryFromHint seededState 1 (Some ''COMIDA'')) = Some 1" .
  have "snd (ExpensesService_suggestCategoryFromHint seededState 1 (Some ''food'')) =
     (let cats = snd (CategoriesService_findAll seededState 1);
          fallback = (case find (\<lambda>cat. c_name cat = ''Otros'') cats of
                        Some others \<Rightarrow> Some (c_id others)
                      | None \<Rightarrow> (case cats of [] \<Rightarrow> None | c # cs \<Rightarrow> Some (c_id c)))
      in case Some ''food'' of
           None \<Rightarrow> fallback
         | Some h \<Rightarrow>
             (case map_of categoryMap (toLowerCase h) of
                None \<Rightarrow> fallback
              | Some name \<Rightarrow>
                  (case find (\<lambda>cat. c_name cat = name) cats of
                     Some category \<Rightarrow> Some (c_id category)
                   | None \<Rightarrow> fallback)))"
    by (rule suggestCategoryFromHint_rule)
  also have "\<dots> = Some 8" by code_simp
  finally show ?thesis using comida by simp
qed

text \<open>The claim as stated fails. In \<open>otherState\<close> owner 1 has the categories Mercado
  (key 1) and Other (key 2) and there is no system category. For a hint that is no
  keyword, and for no hint, the claim's fallback is the category named \<open>Other\<close>, key 2;
  the code returns key 1, the first of the list. In \<open>seededState\<close>, where the owner has a
  category named \<open>Other\<close> (key 10), it returns \<open>Otros\<close> (key 8).\<close>

theorem suggest_ignores_Other_counterexample:
  "map c_id (snd (CategoriesService_findAll otherState 1)) = [1, 2] \<and>
   map c_name (snd (CategoriesService_findAll otherState 1)) = [''Mercado'', ''Other''] \<and>
   snd (ExpensesService_suggestCategoryFromHint otherState 1 (Some ''unknown'')) = Some 1 \<and>
   snd (ExpensesService_suggestCategoryFromHint otherState 1 None) = Some 1 \<and>
   snd (ExpensesService_suggestCategory otherState 1 ''cine'') = Some 1 \<and>
   map c_id (snd (CategoriesService_findAll seededState 1)) = [1, 9, 10, 2, 3, 4, 5, 6, 7, 8] \<and>
   c_name (snd (CategoriesService_findAll seededState 1) ! 2) = ''Other'' \<and>
   snd (ExpensesService_suggestCategoryFromHint seededState 1 None) = Some 8"
  by code_simp

subsection \<open>Reordering categories\<close>

lemma cat_findOne_unresolved:
  "\<not> resolves s u x \<Longrightarrow> cat_findOne s u x = Inl NotFound"
  unfolding resolves_def cat_findOne_def
  by (auto simp: list_ex_iff find_None_iff split: option.splits)

lemma cat_findOne_resolved:
  "resolves s u x \<Longrightarrow> \<exists>c. cat_findOne s u x = Inr c"
  unfolding resolves_def cat_findOne_def
  by (auto simp: list_ex_iff find_None_iff split: option.splits)

lemma cat_save_reindex:
  assumes "distinct (map c_id cs)" and "c0 \<in> set cs"
  shows "cat_save (c0\<lparr>c_orderIndex := k\<rparr>) cs =
           map (\<lambda>c. if c_id c = c_id c0 then c\<lparr>c_orderIndex := k\<rparr> else c) cs"
  unfolding cat_save_def
proof (rule map_cong[OF refl])
  fix c assume "c \<in> set cs"
  then show "(if c_id c = c_id (c0\<lparr>c_orderIndex := k\<rparr>) then c0\<lparr>c_orderIndex := k\<rparr> else c) =
             (if c_id c = c_id c0 then c\<lparr>c_orderIndex := k\<rparr> else c)"
    using distinct_key_unique[OF assms(1) _ assms(2)] by auto
qed

lemma list_ex_map_inv: "(\<And>x. Q (f x) = Q x) \<Longrightarrow> list_ex Q (map f xs) = list_ex Q xs"
  by (induction xs) auto

lemma resolves_reindexed:
  "resolves (s\<lparr>categories := map (\<lambda>c. if P c then c\<lparr>c_orderIndex := k\<rparr> else c) (categories s)\<rparr>) u y
     = resolves s u y"
  unfolding resolves_def by (simp add: list_ex_map_inv)

lemma reorder_loop_spec:
  assumes "distinct (map c_id (categories s))"
  shows "snd (reorder_loop s u i ids) =
           (if takeWhile (resolves s u) ids = ids then Inr () else Inl NotFound) \<and>
         categories (fst (reorder_loop s u i ids)) =
           map (\<lambda>c. if c_userId c = Some u \<and> c_id c \<in> set (takeWhile (resolves s u) ids)
                     then c\<lparr>c_orderIndex := int (i + lastPosition (takeWhile (resolves s u) ids) (c_id c))\<rparr>
                     else c) (categories s) \<and>
         categoriesCache (fst (reorder_loop s u i ids)) = categoriesCache s \<and>
         expenses (fst (reorder_loop s u i ids)) = expenses s \<and>
         paymentMethods (fst (reorder_loop s u i ids)) = paymentMethods s"
  using assms
proof (induction ids arbitrary: s i)
  case Nil
  then show ?case by simp
next
  case (Cons x xs)
  show ?case
  proof (cases "resolves s u x")
    case False
    then show ?thesis using cat_findOne_unresolved[OF False] by simp
  next
    case True
    then obtain c0 where c0: "cat_findOne s u x = Inr c0"
      using cat_findOne_resolved by blast
    then have c0in: "c0 \<in> set (categories s)" and c0id: "c_id c0 = x"
      using cat_findOne_Inr by blast+
    have only: "\<And>c. c \<in> set (categories s) \<Longrightarrow> c_id c = x \<Longrightarrow> c = c0"
      using distinct_key_unique[OF Cons.prems _ c0in] c0id by simp
    let ?ok' = "takeWhile (resolves s u) xs"
    let ?g = "\<lambda>c. if c_userId c = Some u \<and> c_id c \<in> set (x # ?ok')
                   then c\<lparr>c_orderIndex := int (i + lastPosition (x # ?ok') (c_id c))\<rparr> else c"
    let ?g' = "\<lambda>c. if c_userId c = Some u \<and> c_id c \<in> set ?ok'
                   then c\<lparr>c_orderIndex := int (Suc i + lastPosition ?ok' (c_id c))\<rparr> else c"
    have tw: "takeWhile (resolves s u) (x # xs) = x # ?ok'" using True by simp
    have tweq: "(x # ?ok' = x # xs) = (?ok' = xs)" by simp
    show ?thesis
    proof (cases "c_userId c0 = Some u")
      case owned: True
      let ?h = "\<lambda>c. if c_id c = x then c\<lparr>c_orderIndex := int i\<rparr> else c"
      let ?s1 = "s\<lparr>categories := map ?h (categories s)\<rparr>"
      have step: "reorder_loop s u i (x # xs) = reorder_loop ?s1 u (Suc i) xs"
        using c0 owned cat_save_reindex[OF Cons.prems c0in, of "int i"] c0id by simp
      have d1: "distinct (map c_id (categories ?s1))"
        using Cons.prems by (simp add: comp_def if_distrib cong: if_cong)
      have res1: "resolves ?s1 u = resolves s u"
        using resolves_reindexed[of "\<lambda>c. c_id c = x" "int i" s u] by auto
      note ih = Cons.IH[OF d1, of "Suc i", unfolded res1]
      have pointwise: "?g' (?h c) = ?g c" if "c \<in> set (categories s)" for c
      proof (cases "c_id c = x")
        case True
        then have "c = c0" using only that by simp
        then show ?thesis using owned True by simp
      next
        case False
        then show ?thesis by simp
      qed
      have "map ?g' (categories ?s1) = map ?g (categories s)"
        using pointwise by simp
      then show ?thesis unfolding step tw tweq using ih by simp
    next
      case notowned: False
      have step: "reorder_loop s u i (x # xs) = reorder_loop s u (Suc i) xs"
        using c0 notowned by simp
      note ih = Cons.IH[OF Cons.prems, of "Suc i"]
      have pointwise: "?g' c = ?g c" if "c \<in> set (categories s)" for c
      proof (cases "c_id c = x")
        case True
        then have "c = c0" using only that by simp
        then show ?thesis using notowned by simp
      next
        case False
        then show ?thesis by simp
      qed
      have "map ?g' (categories s) = map ?g (categories s)"
        using pointwise by simp
      then show ?thesis unfolding step tw tweq using ih by simp
    qed
  qed
qed

lemma lastPosition_spec:
  "y \<in> set xs \<Longrightarrow>
     lastPosition xs y < length xs \<and> xs ! lastPosition xs y = y \<and>
     y \<notin> set (drop (Suc (lastPosition xs y)) xs)"
  by (induction xs) auto

lemma lastPosition_distinct:
  "distinct xs \<Longrightarrow> k < length xs \<Longrightarrow> lastPosition xs (xs ! k) = k"
proof (induction xs arbitrary: k)
  case Nil
  then show ?case by simp
next
  case (Cons x xs)
  then show ?case by (cases k) auto
qed

text \<open>
  C7 (reorder), as amended. With \<open>resolved\<close> the longest prefix of the list whose ids are
  keys of categories the caller owns or of system categories: \<open>reorder\<close> gives every
  category the caller owns whose key is in \<open>resolved\<close> the order index of its (last)
  position there, counted from 0, and leaves every other category as it was, system
  categories included. It returns normally when \<open>resolved\<close> is the whole list. An id that
  is the key of another owner's category, or of none, is not skipped: \<open>findOne\<close> throws
  \<open>NotFoundException\<close> there, after the positions before it have been saved.
\<close>

theorem reorder_positions:
  assumes "distinct (map c_id (categories s))"
  shows "(let resolved = takeWhile (resolves s userId) ids;
              r = CategoriesService_reorder s userId ids
          in snd r = (if resolved = ids then Inr () else Inl NotFound) \<and>
             categories (fst r) =
               map (\<lambda>c. if c_userId c = Some userId \<and> c_id c \<in> set resolved
                         then c\<lparr>c_orderIndex := int (lastPosition resolved (c_id c))\<rparr>
                         else c) (categories s))"
proof -
  obtain s1 r1 where loop: "reorder_loop s userId 0 ids = (s1, r1)"
    by (cases "reorder_loop s userId 0 ids")
  have spec: "r1 = (if takeWhile (resolves s userId) ids = ids then Inr () else Inl NotFound)"
    "categories s1 =
       map (\<lambda>c. if c_userId c = Some userId \<and> c_id c \<in> set (takeWhile (resolves s userId) ids)
                 then c\<lparr>c_orderIndex := int (lastPosition (takeWhile (resolves s userId) ids) (c_id c))\<rparr>
                 else c) (categories s)"
    using reorder_loop_spec[OF assms, of userId 0 ids] loop by simp_all
  show ?thesis
    unfolding CategoriesService_reorder_def Let_def loop
    using spec by (cases r1) (simp_all add: cat_evict_def split: if_splits)
qed

text \<open>In \<open>sharedState\<close> owner 1 has Mercado (key 1) and Hogar (key 3), owner 2 has Viajes
  (key 2), and the keys 4 to 11 are system categories. Owner 1 reorders \<open>[3, 4, 1]\<close>: Hogar
  gets 0, Mercado gets 2, and the system category 4 keeps its index.\<close>

theorem reorder_positions_witness:
  "distinct (map c_id (categories sharedState)) \<and>
   map c_orderIndex (categories sharedState) = [0, 0, 1, 0, 1, 2, 3, 4, 5, 6, 7] \<and>
   snd (CategoriesService_reorder sharedState 1 [3, 4, 1]) = Inr () \<and>
   map c_orderIndex (categories (fst (CategoriesService_reorder sharedState 1 [3, 4, 1])))
     = [2, 0, 0, 0, 1, 2, 3, 4, 5, 6, 7]"
proof -
  have d: "distinct (map c_id (categories sharedState))" by code_simp
  have before: "map c_orderIndex (categories sharedState) = [0, 0, 1, 0, 1, 2, 3, 4, 5, 6, 7]"
    by code_simp
  have tw: "takeWhile (resolves sharedState 1) [3, 4, 1] = [3, 4, 1]" by code_simp
  note r = reorder_positions[OF d, of 1 "[3, 4, 1]", unfolded Let_def tw]
  have ok: "snd (CategoriesService_reorder sharedState 1 [3, 4, 1]) = Inr ()"
    using r by simp
  have "map c_orderIndex (categories (fst (CategoriesService_reorder sharedState 1 [3, 4, 1]))) =
        map c_orderIndex
          (map (\<lambda>c. if c_userId c = Some 1 \<and> c_id c \<in> set [3, 4, 1]
                    then c\<lparr>c_orderIndex := int (lastPosition [3, 4, 1] (c_id c))\<rparr>
                    else c) (categories sharedState))"
    using r by simp
  also have "\<dots> = [2, 0, 0, 0, 1, 2, 3, 4, 5, 6, 7]" by code_simp
  finally show ?thesis using d before ok by simp
qed

text \<open>The claim as stated fails. Owner 1 reorders \<open>[3, 2, 1]\<close>, where key 2 is owner 2's
  category: the call throws \<open>NotFoundException\<close> instead of skipping the id; Hogar (key 3)
  has been given the index 0 by then, and Mercado (key 1) is never reached.\<close>

theorem reorder_foreign_id_counterexample:
  "map c_id (categories sharedState) = [1, 2, 3, 4, 5, 6, 7, 8, 9, 10, 11] \<and>
   map c_userId (categories sharedState)
     = [Some 1, Some 2, Some 1, None, None, None, None, None, None, None, None] \<and>
   snd (CategoriesService_reorder sharedState 1 [3, 2, 1]) = Inl NotFound \<and>
   map c_orderIndex (categories (fst (CategoriesService_reorder sharedState 1 [3, 2, 1])))
     = [0, 0, 0, 0, 1, 2, 3, 4, 5, 6, 7]"
  by code_simp

subsection \<open>At most one default payment method\<close>

lemma pm_ids_clearDefaults [simp]: "map pm_id (clearDefaults u pms) = map pm_id pms"
  unfolding clearDefaults_def by (induction pms) auto

lemma pm_ids_save [simp]: "map pm_id (pm_save x pms) = map pm_id pms"
  unfolding pm_save_def by (induction pms) auto

lemma defaults_cleared:
  "filter (\<lambda>p. pm_userId p = u \<and> pm_isDefault p) (clearDefaults u pms) = []"
  unfolding clearDefaults_def by (induction pms) auto

lemma defaults_of_others_kept:
  "v \<noteq> u \<Longrightarrow> filter (\<lambda>p. pm_userId p = v \<and> pm_isDefault p) (clearDefaults u pms) =
                filter (\<lambda>p. pm_userId p = v \<and> pm_isDefault p) pms"
  unfolding clearDefaults_def by (induction pms) auto

lemma clearDefaults_member:
  "p \<in> set pms \<Longrightarrow> \<exists>q \<in> set (clearDefaults u pms). pm_id q = pm_id p"
  unfolding clearDefaults_def by (induction pms) auto

lemma save_sets_single_default:
  assumes "distinct (map pm_id pms)"
    and "filter (\<lambda>p. pm_userId p = u \<and> pm_isDefault p) pms = []"
    and "pm_userId x = u" and "pm_isDefault x"
    and "\<exists>q \<in> set pms. pm_id q = pm_id x"
  shows "filter (\<lambda>p. pm_userId p = u \<and> pm_isDefault p) (pm_save x pms) = [x]"
  using assms unfolding pm_save_def
proof (induction pms)
  case Nil
  then show ?case by simp
next
  case (Cons a pms)
  show ?case
  proof (cases "pm_id a = pm_id x")
    case True
    then have "pm_id x \<notin> pm_id ` set pms" using Cons.prems(1) by simp
    then have "\<forall>q \<in> set pms. pm_id q \<noteq> pm_id x" by (metis imageI)
    then have "map (\<lambda>p. if pm_id p = pm_id x then x else p) pms = pms"
      by (simp add: map_idI)
    then show ?thesis using True Cons.prems by (auto split: if_splits)
  next
    case False
    then show ?thesis using Cons by (auto split: if_splits)
  qed
qed

lemma filter_map_no_gain:
  "(\<And>q. q \<in> set xs \<Longrightarrow> P (f q) \<Longrightarrow> P q) \<Longrightarrow> length (filter P (map f xs)) \<le> length (filter P xs)"
  by (induction xs) auto

lemma save_no_gain:
  assumes "\<And>q. q \<in> set pms \<Longrightarrow> pm_id q = pm_id x \<Longrightarrow> P x \<Longrightarrow> P q"
  shows "length (filter P (pm_save x pms)) \<le> length (filter P pms)"
  unfolding pm_save_def using assms by (intro filter_map_no_gain) (auto split: if_splits)

lemma pm_assign_keeps: "pm_id (pm_assign p dto) = pm_id p" "pm_userId (pm_assign p dto) = pm_userId p"
  unfolding pm_assign_def by simp_all

lemma pm_assign_default:
  "pm_isDefault (pm_assign p dto) = (case upm_isDefault dto of None \<Rightarrow> pm_isDefault p | Some v \<Rightarrow> v)"
  unfolding pm_assign_def by simp

lemma pm_exec_distinct:
  assumes "distinct (map pm_id (paymentMethods s))"
  shows "distinct (map pm_id (paymentMethods (fst (pm_exec op s))))"
proof (cases op)
  case (PmCreate u dto)
  then show ?thesis using assms freshId_fresh[of "map pm_id (paymentMethods s)"]
      freshId_fresh[of "map pm_id (clearDefaults u (paymentMethods s))"]
    by (auto simp: PaymentMethodsService_create_def Let_def pm_fromDto_def split: option.splits)
next
  case (PmUpdate u i dto)
  then show ?thesis using assms
    by (auto simp: PaymentMethodsService_update_def Let_def split: sum.splits option.splits)
next
  case (PmSetDefault u i)
  then show ?thesis using assms
    by (auto simp: PaymentMethodsService_setDefault_def Let_def split: sum.splits)
qed

lemma pm_exec_sets_default:
  assumes d: "distinct (map pm_id (paymentMethods s))"
    and sets: "pm_setsDefault op" and ok: "pm_exec op s = (s', Inr p)"
  shows "defaultsOf (pm_owner op) s' = [p]"
proof (cases op)
  case (PmCreate u dto)
  then show ?thesis using sets ok
    by (auto simp: PaymentMethodsService_create_def Let_def pm_fromDto_def defaultsOf_def
        defaults_cleared split: option.splits)
next
  case (PmUpdate u i dto)
  then obtain p0 where p0: "pm_findOne s u i = Inr p0" using ok
    by (auto simp: PaymentMethodsService_update_def split: sum.splits)
  note f = pm_findOne_Inr[OF p0]
  have p: "p = pm_assign p0 dto" and s': "paymentMethods s' = pm_save p (clearDefaults u (paymentMethods s))"
    using PmUpdate sets ok p0
    by (auto simp: PaymentMethodsService_update_def Let_def split: if_splits)
  have "filter (\<lambda>q. pm_userId q = u \<and> pm_isDefault q) (pm_save p (clearDefaults u (paymentMethods s))) = [p]"
  proof (rule save_sets_single_default)
    show "distinct (map pm_id (clearDefaults u (paymentMethods s)))" using d by simp
    show "filter (\<lambda>p. pm_userId p = u \<and> pm_isDefault p) (clearDefaults u (paymentMethods s)) = []"
      by (rule defaults_cleared)
    show "pm_userId p = u" using p f by (simp add: pm_assign_keeps)
    show "pm_isDefault p" using p sets PmUpdate by (simp add: pm_assign_default)
    show "\<exists>q\<in>set (clearDefaults u (paymentMethods s)). pm_id q = pm_id p"
      using clearDefaults_member[of p0 "paymentMethods s" u] f p by (simp add: pm_assign_keeps)
  qed
  then show ?thesis using PmUpdate s' by (simp add: defaultsOf_def)
next
  case (PmSetDefault u i)
  then obtain p0 where p0: "pm_findOne s u i = Inr p0" using ok
    by (auto simp: PaymentMethodsService_setDefault_def split: sum.splits)
  note f = pm_findOne_Inr[OF p0]
  have p: "p = p0\<lparr>pm_isDefault := True\<rparr>" and s': "paymentMethods s' = pm_save p (clearDefaults u (paymentMethods s))"
    using PmSetDefault ok p0
    by (auto simp: PaymentMethodsService_setDefault_def Let_def)
  have "filter (\<lambda>q. pm_userId q = u \<and> pm_isDefault q) (pm_save p (clearDefaults u (paymentMethods s))) = [p]"
  proof (rule save_sets_single_default)
    show "distinct (map pm_id (clearDefaults u (paymentMethods s)))" using d by simp
    show "filter (\<lambda>p. pm_userId p = u \<and> pm_isDefault p) (clearDefaults u (paymentMethods s)) = []"
      by (rule defaults_cleared)
    show "pm_userId p = u" using p f by simp
    show "pm_isDefault p" using p by simp
    show "\<exists>q\<in>set (clearDefaults u (paymentMethods s)). pm_id q = pm_id p"
      using clearDefaults_member[of p0 "paymentMethods s" u] f p by simp
  qed
  then show ?thesis using PmSetDefault s' by (simp add: defaultsOf_def)
qed

lemma pm_exec_failure:
  "pm_exec op s = (s', Inl e) \<Longrightarrow> s' = s"
  by (cases op)
     (auto simp: PaymentMethodsService_create_def PaymentMethodsService_update_def
        PaymentMethodsService_setDefault_def Let_def split: option.splits sum.splits if_splits)

lemma pm_exec_no_gain:
  assumes d: "distinct (map pm_id (paymentMethods s))"
    and other: "\<not> pm_setsDefault op \<or> v \<noteq> pm_owner op"
  shows "length (defaultsOf v (fst (pm_exec op s))) \<le> length (defaultsOf v s)"
proof (cases op)
  case (PmCreate u dto)
  show ?thesis
  proof (cases "cpm_isDefault dto = Some True")
    case True
    then have "v \<noteq> u" using other PmCreate by simp
    then show ?thesis using PmCreate True
      by (auto simp: PaymentMethodsService_create_def Let_def pm_fromDto_def defaultsOf_def
          defaults_of_others_kept split: option.splits)
  next
    case False
    then show ?thesis using PmCreate
      by (cases "cpm_isDefault dto")
         (auto simp: PaymentMethodsService_create_def Let_def pm_fromDto_def defaultsOf_def
          split: option.splits)
  qed
next
  case (PmUpdate u i dto)
  show ?thesis
  proof (cases "pm_exec op s")
    case (Pair s' r)
    show ?thesis
    proof (cases r)
      case (Inl e)
      then show ?thesis using Pair pm_exec_failure[of op s s' e] by simp
    next
      case (Inr p)
      then obtain p0 where p0: "pm_findOne s u i = Inr p0" using Pair PmUpdate
        by (auto simp: PaymentMethodsService_update_def split: sum.splits)
      note f = pm_findOne_Inr[OF p0]
      have p: "p = pm_assign p0 dto" using PmUpdate Pair Inr p0
        by (auto simp: PaymentMethodsService_update_def Let_def split: if_splits)
      show ?thesis
      proof (cases "upm_isDefault dto = Some True")
        case True
        then have vu: "v \<noteq> u" using other PmUpdate by simp
        have s': "paymentMethods s' = pm_save p (clearDefaults u (paymentMethods s))"
          using PmUpdate Pair Inr p0 True
          by (auto simp: PaymentMethodsService_update_def Let_def split: if_splits)
        have "length (filter (\<lambda>q. pm_userId q = v \<and> pm_isDefault q)
                 (pm_save p (clearDefaults u (paymentMethods s))))
              \<le> length (filter (\<lambda>q. pm_userId q = v \<and> pm_isDefault q)
                   (clearDefaults u (paymentMethods s)))"
          by (rule save_no_gain) (use vu p f in \<open>simp add: pm_assign_keeps\<close>)
        then show ?thesis using Pair s' vu by (simp add: defaultsOf_def defaults_of_others_kept)
      next
        case False
        have s': "paymentMethods s' = pm_save p (paymentMethods s)"
          using PmUpdate Pair Inr p0 False
          by (auto simp: PaymentMethodsService_update_def Let_def split: if_splits)
        have "length (filter (\<lambda>q. pm_userId q = v \<and> pm_isDefault q) (pm_save p (paymentMethods s)))
              \<le> length (filter (\<lambda>q. pm_userId q = v \<and> pm_isDefault q) (paymentMethods s))"
        proof (rule save_no_gain)
          fix q assume q: "q \<in> set (paymentMethods s)" "pm_id q = pm_id p"
            and px: "pm_userId p = v \<and> pm_isDefault p"
          have "q = p0" using distinct_key_unique[OF d q(1) f[THEN conjunct1]] q(2) p f
            by (simp add: pm_assign_keeps)
          then show "pm_userId q = v \<and> pm_isDefault q"
            using px p False by (cases "upm_isDefault dto") (auto simp: pm_assign_keeps pm_assign_default)
        qed
        then show ?thesis using Pair s' by (simp add: defaultsOf_def)
      qed
    qed
  qed
next
  case (PmSetDefault u i)
  then have vu: "v \<noteq> u" using other by simp
  show ?thesis
  proof (cases "pm_findOne s u i")
    case (Inl e)
    then show ?thesis using PmSetDefault by (simp add: PaymentMethodsService_setDefault_def)
  next
    case (Inr p0)
    note f = pm_findOne_Inr[OF Inr]
    have "length (filter (\<lambda>q. pm_userId q = v \<and> pm_isDefault q)
             (pm_save (p0\<lparr>pm_isDefault := True\<rparr>) (clearDefaults u (paymentMethods s))))
          \<le> length (filter (\<lambda>q. pm_userId q = v \<and> pm_isDefault q)
               (clearDefaults u (paymentMethods s)))"
      by (rule save_no_gain) (use vu f in simp)
    then show ?thesis using PmSetDefault Inr vu
      by (simp add: PaymentMethodsService_setDefault_def Let_def defaultsOf_def defaults_of_others_kept)
  qed
qed

lemma pm_exec_at_most_one:
  assumes d: "distinct (map pm_id (paymentMethods s))"
    and inv: "\<forall>u. length (defaultsOf u s) \<le> 1"
  shows "length (defaultsOf v (fst (pm_exec op s))) \<le> 1"
proof (cases "pm_setsDefault op \<and> v = pm_owner op")
  case False
  then have "length (defaultsOf v (fst (pm_exec op s))) \<le> length (defaultsOf v s)"
    using pm_exec_no_gain[OF d] by blast
  then show ?thesis using inv order_trans by blast
next
  case True
  obtain s' r where ex: "pm_exec op s = (s', r)" by (cases "pm_exec op s")
  show ?thesis
  proof (cases r)
    case (Inl e)
    then show ?thesis using ex pm_exec_failure[of op s s' e] inv by simp
  next
    case (Inr p)
    then show ?thesis using pm_exec_sets_default[OF d _ ex[unfolded Inr]] True ex by simp
  qed
qed

lemma pm_run_invariant:
  assumes "distinct (map pm_id (paymentMethods s))" and "\<forall>u. length (defaultsOf u s) \<le> 1"
  shows "distinct (map pm_id (paymentMethods (pm_run ops s))) \<and>
         (\<forall>u. length (defaultsOf u (pm_run ops s)) \<le> 1)"
  using assms unfolding pm_run_def
proof (induction ops arbitrary: s)
  case Nil
  then show ?case by simp
next
  case (Cons op ops)
  have "distinct (map pm_id (paymentMethods (pm_step op s)))"
    unfolding pm_step_def using pm_exec_distinct[OF Cons.prems(1)] .
  moreover have "\<forall>u. length (defaultsOf u (pm_step op s)) \<le> 1"
    unfolding pm_step_def using pm_exec_at_most_one[OF Cons.prems] by blast
  ultimately show ?case using Cons.IH by simp
qed

text \<open>
  C2 (at most one default). From a state whose payment methods have distinct keys and in
  which no owner has more than one default, every run of \<open>create\<close>, \<open>update\<close> and
  \<open>setDefault\<close> requests ends in a state in which no owner has more than one default; and
  when a request that asks for a default (\<open>setDefault\<close>, or a \<open>create\<close> or \<open>update\<close> with
  \<open>isDefault = true\<close>) succeeds after such a run, the method it returns is the owner's
  only default: the flag of every other method of the owner has been cleared.
\<close>

theorem at_most_one_default:
  assumes "distinct (map pm_id (paymentMethods s))" and "\<forall>u. length (defaultsOf u s) \<le> 1"
  shows "(\<forall>u. length (defaultsOf u (pm_run ops s)) \<le> 1) \<and>
         (pm_setsDefault op \<longrightarrow> pm_exec op (pm_run ops s) = (s', Inr p) \<longrightarrow>
            defaultsOf (pm_owner op) s' = [p])"
  using pm_run_invariant[OF assms, of ops] pm_exec_sets_default[of "pm_run ops s" op s' p]
  by blast

theorem at_most_one_default_witness:
  "distinct (map pm_id (paymentMethods emptyState)) \<and>
   length (defaultsOf 1 (pm_run abOps emptyState)) \<le> 1 \<and>
   map pm_name (defaultsOf 1 (pm_run abOps emptyState)) = [''A''] \<and>
   map pm_name (defaultsOf 1 (fst (pm_exec (PmSetDefault 1 2) (pm_run abOps emptyState)))) = [''B''] \<and>
   map pm_isDefault (paymentMethods (fst (pm_exec (PmSetDefault 1 2) (pm_run abOps emptyState))))
     = [False, True]"
proof -
  have d: "distinct (map pm_id (paymentMethods emptyState))" by code_simp
  have none: "\<forall>u. length (defaultsOf u emptyState) \<le> 1"
    by (simp add: defaultsOf_def emptyState_def)
  obtain s' r where ex: "pm_exec (PmSetDefault 1 2) (pm_run abOps emptyState) = (s', r)"
    by (cases "pm_exec (PmSetDefault 1 2) (pm_run abOps emptyState)")
  have "map_sum id pm_name (snd (pm_exec (PmSetDefault 1 2) (pm_run abOps emptyState))) = Inr ''B''"
    by code_simp
  then obtain p where r: "r = Inr p" and name: "pm_name p = ''B''"
    using ex by (cases r) auto
  have flags: "map pm_isDefault (paymentMethods (fst (pm_exec (PmSetDefault 1 2) (pm_run abOps emptyState))))
     = [False, True]" by code_simp
  have a: "map pm_name (defaultsOf 1 (pm_run abOps emptyState)) = [''A'']" by code_simp
  note inst = at_most_one_default[OF d none, of abOps "PmSetDefault 1 2" s' p]
  have "defaultsOf 1 s' = [p]" using inst ex r by simp
  moreover have "length (defaultsOf 1 (pm_run abOps emptyState)) \<le> 1" using inst by blast
  ultimately show ?thesis using d a flags name ex by simp
qed

subsection \<open>The expense ledger\<close>

text \<open>\<open>updateBalance\<close> touches the payment methods only, whether it returns or throws.\<close>

lemma updateBalance_frame:
  assumes "PaymentMethodsService_updateBalance s u i a operation = (s', r)"
  shows "expenses s' = expenses s \<and> categories s' = categories s \<and>
         summaryCache s' = summaryCache s"
  using assms unfolding PaymentMethodsService_updateBalance_def
  by (auto simp: Let_def split: sum.splits)







text \<open>The outcomes of \<open>update\<close>: it throws, with the summary cache as it was, or it
  returns the entity in memory, with the row written and the owner's summary evicted.\<close>

lemma update_outcome:
  "(\<exists>s' err. ExpensesService_update s u i dto = (s', Inl err) \<and> summaryCache s' = summaryCache s) \<or>
   (\<exists>s' expense amount. ExpensesService_update s u i dto = (s', Inr (exp_assign expense dto)) \<and>
      exp_findOne s u i = Inr expense \<and>
      (case ue_amount dto of None \<Rightarrow> Inr (e_amount expense) | Some v \<Rightarrow> decimalColumn v) = Inr amount \<and>
      expenses s' = exp_save (exp_row expense (exp_assign expense dto) amount) (expenses s) \<and>
      summaryCache s' u = None)"
proof (cases "exp_findOne s u i")
  case (Inl e)
  then show ?thesis by (simp add: ExpensesService_update_def)
next
  case found: (Inr expense)
  show ?thesis
  proof (cases "(\<exists>c e. ue_categoryId dto = Some c \<and> cat_findOne s u c = Inl e) \<or>
                (\<exists>p e. ue_paymentMethodId dto = Some p \<and> pm_findOne s u p = Inl e)")
    case True
    then show ?thesis using found
      by (auto simp: ExpensesService_update_def Let_def split: option.splits sum.splits)
  next
    case valid: False
    let ?upd = "exp_assign expense dto"
    show ?thesis
    proof (cases "case ue_amount dto of None \<Rightarrow> Inr (e_amount expense) | Some v \<Rightarrow> decimalColumn v")
      case (Inl e)
      then have "ExpensesService_update s u i dto = (s, Inl e)"
        using found valid unfolding ExpensesService_update_def
        by (auto simp: Let_def split: option.splits sum.splits)
      then show ?thesis by simp
    next
      case amt: (Inr amount)
      let ?s1 = "s\<lparr>expenses := exp_save (exp_row expense ?upd amount) (expenses s)\<rparr>"
      let ?b1 = "PaymentMethodsService_updateBalance ?s1 u (e_paymentMethodId expense)
                   (e_amount expense) Add"
      obtain s2 r1 where b1: "?b1 = (s2, r1)" by (cases ?b1)
      let ?b2 = "PaymentMethodsService_updateBalance s2 u (e_paymentMethodId ?upd)
                   (e_amount ?upd) Subtract"
      obtain s3 r2 where b2: "?b2 = (s3, r2)" by (cases ?b2)
      have f2: "expenses s2 = expenses ?s1 \<and> summaryCache s2 = summaryCache ?s1"
        using updateBalance_frame[OF b1] by simp
      have f3: "expenses s3 = expenses s2 \<and> summaryCache s3 = summaryCache s2"
        using updateBalance_frame[OF b2] by simp
      have unfold: "ExpensesService_update s u i dto =
          (if e_amount expense \<noteq> e_amount ?upd \<or> e_paymentMethodId expense \<noteq> e_paymentMethodId ?upd
           then (case r1 of Inl err \<Rightarrow> (s2, Inl err)
                 | Inr pm \<Rightarrow> (case r2 of Inl err \<Rightarrow> (s3, Inl err)
                             | Inr pm' \<Rightarrow> (invalidateCache s3 u, Inr ?upd)))
           else (invalidateCache ?s1 u, Inr ?upd))"
        using found valid amt b1 b2 unfolding ExpensesService_update_def
        by (auto simp: Let_def split: option.splits sum.splits)
      show ?thesis
      proof (cases "e_amount expense \<noteq> e_amount ?upd \<or> e_paymentMethodId expense \<noteq> e_paymentMethodId ?upd")
        case False
        then have "ExpensesService_update s u i dto = (invalidateCache ?s1 u, Inr ?upd)"
          using unfold by simp
        then show ?thesis using found amt by (simp add: invalidateCache_def)
      next
        case True
        show ?thesis
        proof (cases r1)
          case (Inl err)
          then have "ExpensesService_update s u i dto = (s2, Inl err)" using unfold True by simp
          then show ?thesis using f2 by simp
        next
          case r1: (Inr pm)
          show ?thesis
          proof (cases r2)
            case (Inl err)
            then have "ExpensesService_update s u i dto = (s3, Inl err)"
              using unfold True r1 by simp
            then show ?thesis using f2 f3 by simp
          next
            case (Inr pm')
            then have "ExpensesService_update s u i dto = (invalidateCache s3 u, Inr ?upd)"
              using unfold True r1 by simp
            then show ?thesis using found amt f2 f3 by (simp add: invalidateCache_def)
          qed
        qed
      qed
    qed
  qed
qed




text \<open>Each ledger request either throws, with the summary cache as it was, or returns,
  with the owner's entry evicted.\<close>

lemma saveAndDebit_outcome:
  "(\<exists>s' err. saveAndDebit s u e = (s', Inl err) \<and> summaryCache s' = summaryCache s) \<or>
   (\<exists>s' saved. saveAndDebit s u e = (s', Inr saved) \<and> summaryCache s' u = None)"
proof (cases "decimalColumn (e_amount e)")
  case (Inl err)
  then show ?thesis by (simp add: saveAndDebit_def)
next
  case (Inr amount)
  let ?saved = "e\<lparr>e_id := freshId (map e_id (expenses s))\<rparr>"
  let ?s1 = "s\<lparr>expenses := expenses s @ [?saved\<lparr>e_amount := amount\<rparr>]\<rparr>"
  let ?b = "PaymentMethodsService_updateBalance ?s1 u (e_paymentMethodId ?saved) (e_amount ?saved)
              Subtract"
  obtain s2 r where b: "?b = (s2, r)" by (cases ?b)
  have f: "summaryCache s2 = summaryCache s" using updateBalance_frame[OF b] by simp
  have "saveAndDebit s u e =
          (case r of Inl err \<Rightarrow> (s2, Inl err) | Inr pm \<Rightarrow> (invalidateCache s2 u, Inr ?saved))"
    using Inr b unfolding saveAndDebit_def by (simp add: Let_def)
  then show ?thesis using f by (cases r) (simp_all add: invalidateCache_def)
qed

lemma create_outcome:
  "(\<exists>s' err. ExpensesService_create s u dto = (s', Inl err) \<and> summaryCache s' = summaryCache s) \<or>
   (\<exists>s' saved. ExpensesService_create s u dto = (s', Inr saved) \<and> summaryCache s' u = None)"
proof (cases "cat_findOne s u (ce_categoryId dto)")
  case (Inl e)
  then show ?thesis by (simp add: ExpensesService_create_def)
next
  case c: (Inr category)
  show ?thesis
  proof (cases "pm_findOne s u (ce_paymentMethodId dto)")
    case (Inl e)
    then show ?thesis using c by (simp add: ExpensesService_create_def)
  next
    case (Inr p)
    then show ?thesis
      using c saveAndDebit_outcome[of s u
          "\<lparr> e_id = 0, e_amount = ce_amount dto, e_description = ce_description dto,
              e_notes = ce_notes dto, e_date = ce_date dto, e_source = MANUAL,
              e_receiptUrl = None, e_receiptS3Key = None, e_ocrData = None,
              e_voiceTranscription = None, e_voiceAudioUrl = None, e_voiceAudioS3Key = None,
              e_userId = u, e_categoryId = ce_categoryId dto,
              e_paymentMethodId = ce_paymentMethodId dto \<rparr>"]
      by (simp add: ExpensesService_create_def)
  qed
qed

lemma createFromOcr_outcome:
  "(\<exists>s' err. ExpensesService_createFromOcr up s u data = (s', Inl err) \<and>
      summaryCache s' = summaryCache s) \<or>
   (\<exists>s' saved. ExpensesService_createFromOcr up s u data = (s', Inr saved) \<and>
      summaryCache s' u = None)"
proof (cases "cat_findOne s u (od_categoryId data)")
  case (Inl e)
  then show ?thesis by (simp add: ExpensesService_createFromOcr_def)
next
  case c: (Inr category)
  show ?thesis
  proof (cases "pm_findOne s u (od_paymentMethodId data)")
    case (Inl e)
    then show ?thesis using c by (simp add: ExpensesService_createFromOcr_def)
  next
    case (Inr p)
    show ?thesis
    proof (cases up)
      case None
      then show ?thesis using c Inr by (simp add: ExpensesService_createFromOcr_def)
    next
      case (Some r)
      then show ?thesis
        using c Inr saveAndDebit_outcome[of s u
          "\<lparr> e_id = 0, e_amount = od_amount data, e_description = od_description data,
              e_notes = None, e_date = od_date data, e_source = OCR,
              e_receiptUrl = Some (ur_url r),
              e_receiptS3Key = Some (ur_key r), e_ocrData = od_ocrData data,
              e_voiceTranscription = None, e_voiceAudioUrl = None, e_voiceAudioS3Key = None,
              e_userId = u, e_categoryId = od_categoryId data,
              e_paymentMethodId = od_paymentMethodId data \<rparr>"]
        by (simp add: ExpensesService_createFromOcr_def)
    qed
  qed
qed

lemma createFromVoice_outcome:
  "(\<exists>s' err. ExpensesService_createFromVoice up s u data = (s', Inl err) \<and>
      summaryCache s' = summaryCache s) \<or>
   (\<exists>s' saved. ExpensesService_createFromVoice up s u data = (s', Inr saved) \<and>
      summaryCache s' u = None)"
proof (cases "cat_findOne s u (vd_categoryId data)")
  case (Inl e)
  then show ?thesis by (simp add: ExpensesService_createFromVoice_def)
next
  case c: (Inr category)
  show ?thesis
  proof (cases "pm_findOne s u (vd_paymentMethodId data)")
    case (Inl e)
    then show ?thesis using c by (simp add: ExpensesService_createFromVoice_def)
  next
    case (Inr p)
    show ?thesis
    proof (cases "up = Some None")
      case True
      then show ?thesis using c Inr by (simp add: ExpensesService_createFromVoice_def)
    next
      case False
      have "ExpensesService_createFromVoice up s u data =
              saveAndDebit s u
          \<lparr> e_id = 0, e_amount = vd_amount data, e_description = vd_description data,
              e_notes = None, e_date = vd_date data, e_source = VOICE,
              e_receiptUrl = None, e_receiptS3Key = None, e_ocrData = None,
              e_voiceTranscription = Some (vd_transcription data),
              e_voiceAudioUrl = (case up of Some (Some r) \<Rightarrow> Some (ur_url r) | other \<Rightarrow> None),
              e_voiceAudioS3Key = (case up of Some (Some r) \<Rightarrow> Some (ur_key r) | other \<Rightarrow> None),
              e_userId = u, e_categoryId = vd_categoryId data,
              e_paymentMethodId = vd_paymentMethodId data \<rparr>"
        using c Inr False
        by (cases up; cases "the up")
           (auto simp: ExpensesService_createFromVoice_def split: option.splits)
      then show ?thesis
        using saveAndDebit_outcome[of s u
          "\<lparr> e_id = 0, e_amount = vd_amount data, e_description = vd_description data,
              e_notes = None, e_date = vd_date data, e_source = VOICE,
              e_receiptUrl = None, e_receiptS3Key = None, e_ocrData = None,
              e_voiceTranscription = Some (vd_transcription data),
              e_voiceAudioUrl = (case up of Some (Some r) \<Rightarrow> Some (ur_url r) | other \<Rightarrow> None),
              e_voiceAudioS3Key = (case up of Some (Some r) \<Rightarrow> Some (ur_key r) | other \<Rightarrow> None),
              e_userId = u, e_categoryId = vd_categoryId data,
              e_paymentMethodId = vd_paymentMethodId data \<rparr>"]
        by simp
    qed
  qed
qed

lemma remove_outcome:
  "(\<exists>s' err. ExpensesService_remove deleteFile s u i = (s', Inl err) \<and>
      summaryCache s' = summaryCache s) \<or>
   (\<exists>s' done. ExpensesService_remove deleteFile s u i = (s', Inr done) \<and> summaryCache s' u = None)"
proof (cases "exp_findOne s u i")
  case (Inl e)
  then show ?thesis by (simp add: ExpensesService_remove_def)
next
  case (Inr expense)
  let ?b = "PaymentMethodsService_updateBalance s u (e_paymentMethodId expense) (e_amount expense) Add"
  obtain s1 r where b: "?b = (s1, r)" by (cases ?b)
  have f: "summaryCache s1 = summaryCache s" using updateBalance_frame[OF b] by simp
  show ?thesis
    using Inr b f unfolding ExpensesService_remove_def
    by (cases r) (simp_all add: invalidateCache_def)
qed

lemma ledger_exec_outcome:
  "(\<exists>s' err. ledger_exec op s = (s', Inl err) \<and> summaryCache s' = summaryCache s) \<or>
   (\<exists>s' done. ledger_exec op s = (s', Inr done) \<and> summaryCache s' (ledger_owner op) = None)"
proof (cases op)
  case (LCreate u dto)
  then show ?thesis using create_outcome[of s u dto] by (auto simp: dropValue_def)
next
  case (LCreateFromOcr up u data)
  then show ?thesis using createFromOcr_outcome[of up s u data] by (auto simp: dropValue_def)
next
  case (LCreateFromVoice up u data)
  then show ?thesis using createFromVoice_outcome[of up s u data] by (auto simp: dropValue_def)
next
  case (LUpdate u i dto)
  then show ?thesis using update_outcome[of s u i dto] by (auto simp: dropValue_def)
next
  case (LRemove d u i)
  then show ?thesis using remove_outcome[of d s u i] by auto
qed

text \<open>
  C4 (summary cache invalidation), as amended. Every ledger request (the three creation
  paths, \<open>update\<close>, \<open>remove\<close>) that returns has evicted the owner's summary entry, so that
  the next \<open>getSummary\<close> of the owner returns the summary built from the state the request
  left. A request that throws leaves the summary cache as it was, also when it throws
  after it has written to the tables.
\<close>

theorem mutation_evicts_summary:
  "(case ledger_exec op s of
      (s', Inl err) \<Rightarrow> summaryCache s' = summaryCache s
    | (s', Inr done) \<Rightarrow>
        summaryCache s' (ledger_owner op) = None \<and>
        snd (ExpensesService_getSummary s' now (ledger_owner op)) =
          buildSummary s' now (ledger_owner op))"
  using ledger_exec_outcome[of op s]
  by (auto simp: ExpensesService_getSummary_def Let_def)

text \<open>In \<open>cachedState\<close> the summary of owner 1 is cached, with the total 90.00; after the
  amount of expense 1 has gone from 40.00 to 45.00 the entry is gone and \<open>getSummary\<close>
  returns the total 95.00. In \<open>overdrawnState\<close> a \<open>create\<close> throws and the cached entry,
  which counts one expense, stays.\<close>

theorem mutation_evicts_summary_witness:
  "map_option totalAmount (summaryCache cachedState 1) = Some 90 \<and>
   snd (ledger_exec (LUpdate 1 1 (amountDto 45)) cachedState) = Inr () \<and>
   summaryCache (fst (ledger_exec (LUpdate 1 1 (amountDto 45)) cachedState)) 1 = None \<and>
   totalAmount (snd (ExpensesService_getSummary
                       (fst (ledger_exec (LUpdate 1 1 (amountDto 45)) cachedState)) today 1)) = 95 \<and>
   snd (ledger_exec (LCreate 1 (expenseDto (1 / 100) today)) overdrawnState) = Inl QueryFailedError \<and>
   map_option totalExpenses
     (summaryCache (fst (ledger_exec (LCreate 1 (expenseDto (1 / 100) today)) overdrawnState)) 1)
     = Some 1"
proof -
  have cached: "map_option totalAmount (summaryCache cachedState 1) = Some 90" by code_simp
  have ok: "snd (ledger_exec (LUpdate 1 1 (amountDto 45)) cachedState) = Inr ()" by code_simp
  obtain s' where ex: "ledger_exec (LUpdate 1 1 (amountDto 45)) cachedState = (s', Inr ())"
    using ok by (cases "ledger_exec (LUpdate 1 1 (amountDto 45)) cachedState") auto
  have after: "summaryCache s' 1 = None \<and>
               snd (ExpensesService_getSummary s' today 1) = buildSummary s' today 1"
    using mutation_evicts_summary[where op = "LUpdate 1 1 (amountDto 45)" and s = cachedState
        and now = today] ex by simp
  have total: "totalAmount (buildSummary (fst (ledger_exec (LUpdate 1 1 (amountDto 45)) cachedState))
                 today 1) = 95"
    by code_simp
  have thrown: "snd (ledger_exec (LCreate 1 (expenseDto (1 / 100) today)) overdrawnState)
                  = Inl QueryFailedError"
    by code_simp
  obtain s'' where ex': "ledger_exec (LCreate 1 (expenseDto (1 / 100) today)) overdrawnState
                           = (s'', Inl QueryFailedError)"
    using thrown by (cases "ledger_exec (LCreate 1 (expenseDto (1 / 100) today)) overdrawnState") auto
  have kept: "summaryCache s'' = summaryCache overdrawnState"
    using mutation_evicts_summary[where op = "LCreate 1 (expenseDto (1 / 100) today)"
        and s = overdrawnState and now = today] ex' by simp
  have "map_option totalExpenses (summaryCache overdrawnState 1) = Some 1" by code_simp
  then show ?thesis using cached ok after ex total thrown ex' kept by simp
qed

text \<open>The claim as stated fails. In \<open>overdrawnState\<close> owner 1 has one expense, the balance
  of Cash is -9999999999999.99, and the summary is cached with one expense counted. A
  \<open>create\<close> of 0.01 inserts its row; the debit would take the balance to
  -10000000000000.00, which the column rejects, so the request throws
  \<open>QueryFailedError\<close> before it evicts the summary. The table then holds two expenses of
  the owner, and \<open>getSummary\<close> still returns the summary cached before, which counts
  one.\<close>

theorem stale_summary_after_rejected_debit_counterexample:
  "map pm_balance (paymentMethods overdrawnState) = [- (999999999999999 / 100)] \<and>
   map e_amount (expenses overdrawnState) = [999999999999999 / 100] \<and>
   map_option totalExpenses (summaryCache overdrawnState 1) = Some 1 \<and>
   snd (ExpensesService_create overdrawnState 1 (expenseDto (1 / 100) today)) = Inl QueryFailedError \<and>
   map e_amount (expenses (fst (ExpensesService_create overdrawnState 1 (expenseDto (1 / 100) today))))
     = [999999999999999 / 100, 1 / 100] \<and>
   totalExpenses (snd (ExpensesService_getSummary
       (fst (ExpensesService_create overdrawnState 1 (expenseDto (1 / 100) today))) today 1)) = 1 \<and>
   totalExpenses (buildSummary
       (fst (ExpensesService_create overdrawnState 1 (expenseDto (1 / 100) today))) today 1) = 2"
  by code_simp

subsection \<open>Balance conservation\<close>

text \<open>The scenario of the specification: an expense of 30.00 against the balance 100.00
  leaves 70.00, the update of its amount to 50.00 leaves 50.00, and its deletion restores
  100.00.\<close>

lemma balance_scenario:
  "balanceOf cashState 1 = Some 100 \<and>
   balanceOf (ledger_run [LCreate 1 (expenseDto 30 today)] cashState) 1 = Some 70 \<and>
   balanceOf (ledger_run [LCreate 1 (expenseDto 30 today), LUpdate 1 1 (amountDto 50)] cashState) 1
     = Some 50 \<and>
   balanceOf (ledger_run [LCreate 1 (expenseDto 30 today), LUpdate 1 1 (amountDto 50),
                          LRemove storageUp 1 1] cashState) 1 = Some 100"
  by code_simp

text \<open>Two runs in which every request returns and the equation of the claim fails. In
  \<open>twoWalletsState\<close> the expense of 30.00 is charged to Cash (balance 70.00), and Card has
  the balance 500.00; the update with \<open>cardDto\<close> credits Cash and debits Card, and the row
  keeps its payment method: Cash has 100.00 with 30.00 charged, Card 470.00 with nothing
  charged. And an expense of 0.015 is stored as 0.02, while the debit of 0.015 takes the
  balance 100.00 to 99.985, stored as 99.99.\<close>

lemma moved_expense_breaks_conservation:
  "balanceOf twoWalletsState 1 = Some 70 \<and> balanceOf twoWalletsState 2 = Some 500 \<and>
   charged 1 twoWalletsState = 30 \<and> charged 2 twoWalletsState = 0 \<and>
   snd (ledger_exec (LUpdate 1 1 cardDto) twoWalletsState) = Inr () \<and>
   balanceOf (ledger_run [LUpdate 1 1 cardDto] twoWalletsState) 1 = Some 100 \<and>
   balanceOf (ledger_run [LUpdate 1 1 cardDto] twoWalletsState) 2 = Some 470 \<and>
   charged 1 (ledger_run [LUpdate 1 1 cardDto] twoWalletsState) = 30 \<and>
   charged 2 (ledger_run [LUpdate 1 1 cardDto] twoWalletsState) = 0"
  by code_simp

lemma rounded_amount_breaks_conservation:
  "snd (ledger_exec (LCreate 1 (expenseDto (15 / 1000) today)) cashState) = Inr () \<and>
   balanceOf (ledger_run [LCreate 1 (expenseDto (15 / 1000) today)] cashState) 1
     = Some (9999 / 100) \<and>
   charged 1 (ledger_run [LCreate 1 (expenseDto (15 / 1000) today)] cashState) = 2 / 100"
  by code_simp

text \<open>
  C1 (balance conservation). The claim: after every finite sequence of ledger requests the
  balance of a payment method is its initial balance minus the amounts of the live
  expenses charged against it. The scenario of the claim comes out as it says
  (\<open>balance_scenario\<close>), but the equation does not hold of every run: \<open>remove\<close> credits
  the amount back before it asks the storage service to delete the receipt, and a failed
  deletion aborts it with the expense still in the table. In \<open>cashState\<close> Cash has
  the balance 100.00 and there is no expense; after a scanned receipt of 30.00 the balance
  is 70.00; the deletion of that expense then fails in the storage service, and leaves the
  balance 100.00 with the expense of 30.00 still charged, where the claim gives 70.00. A
  second attempt leaves 130.00.
\<close>

theorem failed_delete_breaks_conservation:
  "balanceOf cashState 1 = Some 100 \<and> expenses cashState = [] \<and>
   balanceOf (ledger_run scanRun cashState) 1 = Some 70 \<and>
   charged 1 (ledger_run scanRun cashState) = 30 \<and>
   snd (ledger_exec (LRemove storageDown 1 1) (ledger_run scanRun cashState)) = Inl DeleteFailure \<and>
   balanceOf (ledger_run failedDeleteRun cashState) 1 = Some 100 \<and>
   charged 1 (ledger_run failedDeleteRun cashState) = 30 \<and>
   map e_id (expenses (ledger_run failedDeleteRun cashState)) = [1] \<and>
   balanceOf (ledger_run (failedDeleteRun @ [LRemove storageDown 1 1]) cashState) 1 = Some 130"
  by code_simp

end
